theory Spec2Isabelle
  imports Main "HOL-Library.Word" "HOL-Library.Sublist" "HOL-Library.Signed_Division"
begin

section \<open>Data model of the virtual filter subsystem\<close>

text \<open>
  Filter ids (\<^verbatim>\<open>rpc.ID\<close>), node URLs, node names, hashes and addresses are strings.
  \<^verbatim>\<open>rpc.BlockNumber\<close> is a Go \<^verbatim>\<open>int64\<close>: a 64-bit word read with \<open>sint\<close>; the
  block number of a log is a \<^verbatim>\<open>uint64\<close>: a 64-bit word compared unsigned.
\<close>

type_synonym ID = string
type_synonym Hash = string
type_synonym Address = string

text \<open>\<^verbatim>\<open>types.Log\<close>; only \<^verbatim>\<open>BlockNumber\<close> is read by the code directly.\<close>

record Log =
  Address :: Address
  LogTopics :: "Hash list"
  Data :: string
  BlockNumber :: "64 word"
  TxHash :: Hash
  TxIndex :: nat
  LogBlockHash :: Hash
  Index :: nat
  Removed :: bool

text \<open>\<^verbatim>\<open>types.FilterQuery\<close>; a nil pointer is \<open>None\<close>.\<close>

record FilterQuery =
  BlockHash :: "Hash option"
  FromBlock :: "64 word option"
  ToBlock :: "64 word option"
  Addresses :: "Address list"
  Topics :: "Hash list list"

text \<open>\<^verbatim>\<open>types.FilterChanges\<close>: logs for a log filter, hashes for the other types.\<close>

record FilterChanges =
  Logs :: "Log list"
  Hashes :: "Hash list"

text \<open>
  Go errors. \<^verbatim>\<open>errors.WithMessage(err, msg)\<close> is \<open>WithMessage err msg\<close>; any other
  error value (a transport error, an error of the full node) is \<open>ErrMessage\<close>.
  A nil error is \<open>None\<close> of \<open>error option\<close>.
\<close>

datatype error =
    errFilterNotFound
  | ErrInvalidEthLogFilter
  | ErrMessage string
  | WithMessage error string

subsection \<open>Filter records of the facade\<close>

datatype FilterType = FilterTypeBlock | FilterTypePendingTxn | FilterTypeLog

record fnDelegateInfo =
  fid :: ID
  nodeUrl :: string

text \<open>
  The \<^verbatim>\<open>Filter\<close> struct. The code reads \<^verbatim>\<open>typ\<close> (here \<open>ftyp\<close>), \<^verbatim>\<open>del\<close> and
  \<^verbatim>\<open>lastPollingTime\<close>; \<open>query\<close> is the criteria pointer handed to
  \<^verbatim>\<open>newFilter\<close> for a log filter, which no operation of the facade reads.
  Instants are integers (nanoseconds).
\<close>

record Filter =
  ftyp :: FilterType
  del :: fnDelegateInfo
  query :: "FilterQuery option"
  lastPollingTime :: int

text \<open>
  Modelled from the spec: the constructor \<^verbatim>\<open>newFilter\<close> is not part of the sources at
  hand. A record carries its type, its delegate binding, the query when there is one,
  and a last-poll time, which starts at the time of creation.
\<close>

definition newFilter :: "int \<Rightarrow> FilterType \<Rightarrow> fnDelegateInfo \<Rightarrow> FilterQuery option \<Rightarrow> Filter" where
  "newFilter now t d q = \<lparr>ftyp = t, del = d, query = q, lastPollingTime = now\<rparr>"

text \<open>
  Modelled from the spec: the method \<^verbatim>\<open>IsDelegateFullNode\<close> is not part of the sources
  at hand. The sticky delegate rule of the spec compares the node URL of the call with
  the node URL of the record's delegate.
\<close>

definition IsDelegateFullNode :: "Filter \<Rightarrow> string \<Rightarrow> bool" where
  "IsDelegateFullNode f url = (url = nodeUrl (del f))"

subsection \<open>The filter system and its proxy stubs\<close>

record Web3goClient =
  URL :: string

record FilterContext =
  crit :: FilterQuery

text \<open>
  A proxy stub, as far as \<^verbatim>\<open>FilterSystem\<close> reads it: its full node client and the
  filter contexts of its delegate filters. What a stub does on \<^verbatim>\<open>newFilter\<close>,
  \<^verbatim>\<open>uninstallFilter\<close> and \<^verbatim>\<open>getFilterChanges\<close> is a parameter of the model.
\<close>

record proxyStub =
  client :: Web3goClient
  delegates :: "ID \<rightharpoonup> FilterContext"

text \<open>
  Modelled from the spec: \<^verbatim>\<open>getFilterContext\<close> and \<^verbatim>\<open>newProxyStub\<close> are not part of
  the sources at hand. The context of a delegate filter holds the original query; a
  fresh stub has no delegate filter.
\<close>

definition getFilterContext :: "proxyStub \<Rightarrow> ID \<Rightarrow> FilterContext option" where
  "getFilterContext proxy i = delegates proxy i"

definition newProxyStub :: "Web3goClient \<Rightarrow> proxyStub" where
  "newProxyStub c = \<lparr>client = c, delegates = Map.empty\<rparr>"

text \<open>
  Both maps of \<^verbatim>\<open>FilterSystem\<close> hold pointers to stubs shared between them: a stub
  lives at an address of \<open>heap\<close>, and the maps hold addresses.
\<close>

record FilterSystem =
  fnProxies :: "string \<rightharpoonup> nat"
  filterProxies :: "ID \<rightharpoonup> nat"
  heap :: "nat \<Rightarrow> proxyStub"
  nextAddr :: nat

text \<open>
  \<^verbatim>\<open>NewFilterSystem\<close>: both maps are empty and no stub is allocated; the cells of the
  heap beyond \<open>nextAddr\<close> are never read.
\<close>

definition NewFilterSystem :: FilterSystem where
  "NewFilterSystem =
     \<lparr>fnProxies = Map.empty, filterProxies = Map.empty,
      heap = (\<lambda>p. newProxyStub \<lparr>URL = []\<rparr>), nextAddr = 0\<rparr>"

subsection \<open>Calls that leave the modelled code\<close>

text \<open>
  Every call into a full node client, into the filter system, into a proxy stub or into
  the log handler is appended to a call log, so that "no upstream call" is a statement
  about that log. A full node is named by the URL of its client, a stub by its address.
\<close>

datatype call =
    CallNewEthClient string
  | CallNewBlockFilter string
  | CallNewPendingTransactionFilter string
  | CallNewLogFilter string FilterQuery
  | CallUninstallFilter string ID
  | CallGetFilterLogs string ID
  | CallGetFilterChanges string ID
  | SysNewFilter string FilterQuery
  | SysUninstallFilter ID
  | SysGetFilterLogs ID
  | SysGetFilterChanges ID
  | StubNewFilter nat FilterQuery
  | StubUninstallFilter nat ID
  | StubGetFilterChanges nat ID
  | CallGetNetworkId string
  | CallNormalizeEthLogFilter string FilterQuery
  | CallGetLogs string FilterQuery

text \<open>The informational event of the sticky delegate rule: operation, filter id, new and old URL.\<close>

datatype info = DelegateSwitched string ID string string

text \<open>
  The environment: everything the two source files call that is not in them. Each
  answer of a full node, of a stub or of the log handler may depend on the calls made so
  far (the first argument). \<^verbatim>\<open>rpc.NewID\<close> draws the \<open>n\<close>-th fresh id.
\<close>

record Env =
  IncludeEthLogAddrs :: "Log \<Rightarrow> Address list \<Rightarrow> bool"
  MatchEthLogTopics :: "Log \<Rightarrow> Hash list list \<Rightarrow> bool"
  Url2NodeName :: "string \<Rightarrow> string"
  NewEthClient :: "call list \<Rightarrow> string \<Rightarrow> error option"
  NewID :: "nat \<Rightarrow> ID"
  filterProxyError :: "error \<Rightarrow> error"
  IsFilterNotFoundError :: "error option \<Rightarrow> bool"
  fnNewBlockFilter :: "call list \<Rightarrow> string \<Rightarrow> error + ID"
  fnNewPendingTransactionFilter :: "call list \<Rightarrow> string \<Rightarrow> error + ID"
  fnNewLogFilter :: "call list \<Rightarrow> string \<Rightarrow> FilterQuery \<Rightarrow> error + ID"
  fnUninstallFilter :: "call list \<Rightarrow> string \<Rightarrow> ID \<Rightarrow> bool \<times> error option"
  fnGetFilterLogs :: "call list \<Rightarrow> string \<Rightarrow> ID \<Rightarrow> Log list option \<times> error option"
  fnGetFilterChanges :: "call list \<Rightarrow> string \<Rightarrow> ID \<Rightarrow> FilterChanges option \<times> error option"
  stubNewFilter :: "call list \<Rightarrow> proxyStub \<Rightarrow> FilterQuery \<Rightarrow> (error + ID) \<times> proxyStub"
  stubUninstallFilter :: "call list \<Rightarrow> proxyStub \<Rightarrow> ID \<Rightarrow> bool \<times> proxyStub"
  stubGetFilterChanges :: "call list \<Rightarrow> proxyStub \<Rightarrow> ID \<Rightarrow> (error + FilterChanges) \<times> proxyStub"
  ParseEthLogFilterType :: "FilterQuery \<Rightarrow> nat option"
  GetNetworkId :: "call list \<Rightarrow> string \<Rightarrow> error + 64 word"
  GetEthHardforkBlockNumber :: "64 word \<Rightarrow> 64 word"
  NormalizeEthLogFilter :: "call list \<Rightarrow> string \<Rightarrow> nat \<Rightarrow> FilterQuery \<Rightarrow> 64 word \<Rightarrow> FilterQuery \<times> error option"
  ValidateEthLogFilter :: "nat \<Rightarrow> FilterQuery \<Rightarrow> error option"
  GetLogs :: "call list \<Rightarrow> string \<Rightarrow> FilterQuery \<Rightarrow> Log list option \<times> bool \<times> error option"

section \<open>FilterSystem\<close>

subsection \<open>filterLogs\<close>

text \<open>
  The four guards of the loop body, in the order of the source; each one is a
  \<^verbatim>\<open>continue\<close>. \<^verbatim>\<open>crit.FromBlock.Int64() >= 0\<close> reads the bound signed,
  \<^verbatim>\<open>uint64(*crit.FromBlock) > logs[i].BlockNumber\<close> compares the same bits unsigned.
\<close>

definition fromBlockSkips :: "FilterQuery \<Rightarrow> Log \<Rightarrow> bool" where
  "fromBlockSkips q l =
     (case FromBlock q of
        None \<Rightarrow> False
      | Some fb \<Rightarrow> 0 \<le> sint fb \<and> BlockNumber l < fb)"

definition toBlockSkips :: "FilterQuery \<Rightarrow> Log \<Rightarrow> bool" where
  "toBlockSkips q l =
     (case ToBlock q of
        None \<Rightarrow> False
      | Some tb \<Rightarrow> 0 \<le> sint tb \<and> tb < BlockNumber l)"

definition addressSkips :: "Env \<Rightarrow> FilterQuery \<Rightarrow> Log \<Rightarrow> bool" where
  "addressSkips E q l =
     (0 < length (Addresses q) \<and> \<not> IncludeEthLogAddrs E l (Addresses q))"

definition topicSkips :: "Env \<Rightarrow> FilterQuery \<Rightarrow> Log \<Rightarrow> bool" where
  "topicSkips E q l =
     (0 < length (Topics q) \<and> \<not> MatchEthLogTopics E l (Topics q))"

fun filterLogs :: "Env \<Rightarrow> Log list \<Rightarrow> FilterQuery \<Rightarrow> Log list" where
  "filterLogs E [] q = []"
| "filterLogs E (l # logs) q =
     (if fromBlockSkips q l then filterLogs E logs q
      else if toBlockSkips q l then filterLogs E logs q
      else if addressSkips E q l then filterLogs E logs q
      else if topicSkips E q l then filterLogs E logs q
      else l # filterLogs E logs q)"

subsection \<open>Proxy lookup\<close>

text \<open>
  Modelled from the spec: \<^verbatim>\<open>client.NodeName()\<close> is not part of the sources at
  hand. There is one proxy stub per upstream node; the facade names the node of a URL by
  \<^verbatim>\<open>Url2NodeName\<close>, and so does the model here.
\<close>

definition NodeName :: "Env \<Rightarrow> Web3goClient \<Rightarrow> string" where
  "NodeName E c = Url2NodeName E (URL c)"

definition loadOrNewFnProxy :: "Env \<Rightarrow> FilterSystem \<Rightarrow> Web3goClient \<Rightarrow> nat \<times> FilterSystem" where
  "loadOrNewFnProxy E fs c =
     (let nn = NodeName E c in
      case fnProxies fs nn of
        Some p \<Rightarrow> (p, fs)
      | None \<Rightarrow>
          (let p = nextAddr fs in
           (p, fs\<lparr>fnProxies := (fnProxies fs)(nn \<mapsto> p),
                   heap := (heap fs)(p := newProxyStub c),
                   nextAddr := Suc p\<rparr>)))"

definition loadFilterContext :: "FilterSystem \<Rightarrow> ID \<Rightarrow> (nat \<times> FilterContext) option" where
  "loadFilterContext fs i =
     (case filterProxies fs i of
        None \<Rightarrow> None
      | Some p \<Rightarrow>
          (case getFilterContext (heap fs p) i of
             None \<Rightarrow> None
           | Some fctx \<Rightarrow> Some (p, fctx)))"

subsection \<open>The four operations\<close>

text \<open>
  Each operation takes the filter system and the call log and returns its Go result
  with both updated. A Go pair \<^verbatim>\<open>(value, error)\<close> stays a pair where the caller reads
  both parts.
\<close>

definition FilterSystem_NewFilter ::
  "Env \<Rightarrow> FilterSystem \<Rightarrow> call list \<Rightarrow> Web3goClient \<Rightarrow> FilterQuery
     \<Rightarrow> (error + ID) \<times> FilterSystem \<times> call list" where
  "FilterSystem_NewFilter E fs cs c q =
     (let cs1 = cs @ [SysNewFilter (URL c) q];
          (p, fs1) = loadOrNewFnProxy E fs c;
          (r, proxy') = stubNewFilter E cs1 (heap fs1 p) q;
          cs2 = cs1 @ [StubNewFilter p q];
          fs2 = fs1\<lparr>heap := (heap fs1)(p := proxy')\<rparr>
      in case r of
           Inl err \<Rightarrow> (Inl err, fs2, cs2)
         | Inr i \<Rightarrow> (Inr i, fs2\<lparr>filterProxies := (filterProxies fs2)(i \<mapsto> p)\<rparr>, cs2))"

definition FilterSystem_UninstallFilter ::
  "Env \<Rightarrow> FilterSystem \<Rightarrow> call list \<Rightarrow> ID \<Rightarrow> (bool \<times> error option) \<times> FilterSystem \<times> call list" where
  "FilterSystem_UninstallFilter E fs cs i =
     (let cs1 = cs @ [SysUninstallFilter i] in
      case filterProxies fs i of
        Some p \<Rightarrow>
          (let fs1 = fs\<lparr>filterProxies := (filterProxies fs)(i := None)\<rparr>;
               (b, proxy') = stubUninstallFilter E cs1 (heap fs1 p) i
           in ((b, None), fs1\<lparr>heap := (heap fs1)(p := proxy')\<rparr>, cs1 @ [StubUninstallFilter p i]))
      | None \<Rightarrow> ((False, None), fs, cs1))"

text \<open>
  \<^verbatim>\<open>NormalizeEthLogFilter\<close> writes through the criteria pointer of the filter context,
  so the context keeps the normalized query. A nil slice of logs is \<open>None\<close>.
  The store-hit metric has no effect on the result.
\<close>

definition beforeHardfork :: "FilterQuery \<Rightarrow> 64 word \<Rightarrow> bool" where
  "beforeHardfork q hardforkBlockNum =
     (case ToBlock q of
        None \<Rightarrow> False
      | Some tb \<Rightarrow> sint tb \<le> sint hardforkBlockNum)"

definition FilterSystem_GetFilterLogs ::
  "Env \<Rightarrow> FilterSystem \<Rightarrow> call list \<Rightarrow> ID
     \<Rightarrow> (Log list option \<times> error option) \<times> FilterSystem \<times> call list" where
  "FilterSystem_GetFilterLogs E fs cs i =
     (let cs1 = cs @ [SysGetFilterLogs i] in
      case loadFilterContext fs i of
        None \<Rightarrow> ((None, Some errFilterNotFound), fs, cs1)
      | Some (p, fctx) \<Rightarrow>
          (let w3c = client (heap fs p); q = crit fctx in
           case ParseEthLogFilterType E q of
             None \<Rightarrow> ((None, Some ErrInvalidEthLogFilter), fs, cs1)
           | Some flag \<Rightarrow>
               (let cs2 = cs1 @ [CallGetNetworkId (URL w3c)] in
                case GetNetworkId E cs1 (URL w3c) of
                  Inl err \<Rightarrow> ((None, Some (WithMessage err ''failed to get chain ID'')), fs, cs2)
                | Inr chainId \<Rightarrow>
                    (let hardforkBlockNum = GetEthHardforkBlockNumber E chainId;
                         (q', nerr) = NormalizeEthLogFilter E cs2 (URL w3c) flag q hardforkBlockNum;
                         cs3 = cs2 @ [CallNormalizeEthLogFilter (URL w3c) q];
                         stub = heap fs p;
                         fs1 = fs\<lparr>heap := (heap fs)
                                 (p := stub\<lparr>delegates := (delegates stub)(i \<mapsto> fctx\<lparr>crit := q'\<rparr>)\<rparr>)\<rparr>
                     in case nerr of
                          Some err \<Rightarrow> ((None, Some err), fs1, cs3)
                        | None \<Rightarrow>
                            (case ValidateEthLogFilter E flag q' of
                               Some err \<Rightarrow> ((None, Some err), fs1, cs3)
                             | None \<Rightarrow>
                                 if beforeHardfork q' hardforkBlockNum
                                 then ((None, None), fs1, cs3)
                                 else (let (logs, hitStore, err) = GetLogs E cs3 (URL w3c) q'
                                       in ((logs, err), fs1, cs3 @ [CallGetLogs (URL w3c) q'])))))))"

definition FilterSystem_GetFilterChanges ::
  "Env \<Rightarrow> FilterSystem \<Rightarrow> call list \<Rightarrow> ID
     \<Rightarrow> (FilterChanges option \<times> error option) \<times> FilterSystem \<times> call list" where
  "FilterSystem_GetFilterChanges E fs cs i =
     (let cs1 = cs @ [SysGetFilterChanges i] in
      case loadFilterContext fs i of
        None \<Rightarrow> ((None, Some errFilterNotFound), fs, cs1)
      | Some (p, fctx) \<Rightarrow>
          (let (r, proxy') = stubGetFilterChanges E cs1 (heap fs p) i;
               cs2 = cs1 @ [StubGetFilterChanges p i];
               fs1 = fs\<lparr>heap := (heap fs)(p := proxy')\<rparr>
           in case r of
                Inl err \<Rightarrow> ((None, Some (filterProxyError E err)), fs1, cs2)
              | Inr changes \<Rightarrow>
                  ((Some (changes\<lparr>Logs := filterLogs E (Logs changes) (crit fctx)\<rparr>), None), fs1, cs2)))"

text \<open>\<^verbatim>\<open>onClosed\<close>: the delegate filters of a closed stub leave \<^verbatim>\<open>filterProxies\<close>.\<close>

definition onClosed :: "FilterSystem \<Rightarrow> ID list \<Rightarrow> FilterSystem" where
  "onClosed fs dfids = fs\<lparr>filterProxies := fold (\<lambda>dfid m. m(dfid := None)) dfids (filterProxies fs)\<rparr>"


section \<open>FilterApi, the facade\<close>

text \<open>
  \<open>sys\<close> is \<open>None\<close> for a nil \<^verbatim>\<open>*FilterSystem\<close>. \<open>clients\<close> is keyed by
  node name. \<open>calls\<close> and \<open>infos\<close> record the calls and the log events of the
  operations; \<open>idCount\<close> counts the ids drawn from \<^verbatim>\<open>rpc.NewID\<close>.
\<close>

record FilterApi =
  sys :: "FilterSystem option"
  filters :: "ID \<rightharpoonup> Filter"
  clients :: "string \<rightharpoonup> Web3goClient"
  calls :: "call list"
  infos :: "info list"
  idCount :: nat

definition ethEmptyLogs :: "Log list option" where
  "ethEmptyLogs = Some []"

definition nilRpcId :: ID where
  "nilRpcId = ''0x0''"

definition NewFilterApi :: "FilterSystem option \<Rightarrow> FilterApi" where
  "NewFilterApi system =
     \<lparr>sys = system, filters = Map.empty, clients = Map.empty, calls = [], infos = [], idCount = 0\<rparr>"

subsection \<open>Proxy filter management\<close>

definition getFilter :: "FilterApi \<Rightarrow> ID \<Rightarrow> Filter option" where
  "getFilter api i = filters api i"

definition addFilter :: "FilterApi \<Rightarrow> ID \<Rightarrow> Filter \<Rightarrow> FilterApi" where
  "addFilter api i f = api\<lparr>filters := (filters api)(i \<mapsto> f)\<rparr>"

definition delFilter :: "FilterApi \<Rightarrow> ID \<Rightarrow> Filter option \<times> FilterApi" where
  "delFilter api i =
     (case filters api i of
        Some f \<Rightarrow> (Some f, api\<lparr>filters := (filters api)(i := None)\<rparr>)
      | None \<Rightarrow> (None, api))"

definition refreshFilterPollingTime :: "int \<Rightarrow> FilterApi \<Rightarrow> ID \<Rightarrow> FilterApi" where
  "refreshFilterPollingTime now api i =
     (case filters api i of
        Some f \<Rightarrow> api\<lparr>filters := (filters api)(i \<mapsto> f\<lparr>lastPollingTime := now\<rparr>)\<rparr>
      | None \<Rightarrow> api)"

subsection \<open>Full node clients\<close>

text \<open>
  \<^verbatim>\<open>LoadOrStoreFnErr\<close> is the load-or-create primitive of the spec: the client
  stored under the node name, or a new one for the URL, stored unless its creation fails.
\<close>

definition loadOrGetFnClient :: "Env \<Rightarrow> FilterApi \<Rightarrow> string \<Rightarrow> (error + Web3goClient) \<times> FilterApi" where
  "loadOrGetFnClient E api url =
     (let nodeName = Url2NodeName E url in
      case clients api nodeName of
        Some c \<Rightarrow> (Inr c, api)
      | None \<Rightarrow>
          (let api1 = api\<lparr>calls := calls api @ [CallNewEthClient url]\<rparr> in
           case NewEthClient E (calls api) url of
             Some err \<Rightarrow> (Inl err, api1)
           | None \<Rightarrow>
               (let c = \<lparr>URL = url\<rparr>
                in (Inr c, api1\<lparr>clients := (clients api1)(nodeName \<mapsto> c)\<rparr>))))"

text \<open>
  The block the three operations on an installed filter share: a call that does not
  come with the delegate's node URL is logged and goes on with the delegate's.
\<close>

definition useDelegateFullNode :: "string \<Rightarrow> FilterApi \<Rightarrow> ID \<Rightarrow> Filter \<Rightarrow> string \<Rightarrow> string \<times> FilterApi" where
  "useDelegateFullNode opName api i f url =
     (if \<not> IsDelegateFullNode f url
      then (nodeUrl (del f),
            api\<lparr>infos := infos api @ [DelegateSwitched opName i url (nodeUrl (del f))]\<rparr>)
      else (url, api))"

subsection \<open>Creating filters\<close>

definition FilterApi_NewBlockFilter :: "Env \<Rightarrow> int \<Rightarrow> FilterApi \<Rightarrow> string \<Rightarrow> (ID \<times> error option) \<times> FilterApi" where
  "FilterApi_NewBlockFilter E now api url =
     (case loadOrGetFnClient E api url of
        (Inl err, api1) \<Rightarrow> ((nilRpcId, Some (filterProxyError E err)), api1)
      | (Inr c, api1) \<Rightarrow>
          (let api2 = api1\<lparr>calls := calls api1 @ [CallNewBlockFilter (URL c)]\<rparr> in
           case fnNewBlockFilter E (calls api1) (URL c) of
             Inl err \<Rightarrow> ((nilRpcId, Some (filterProxyError E err)), api2)
           | Inr dfid \<Rightarrow>
               (let pfid = NewID E (idCount api2)
                in ((pfid, None),
                    addFilter (api2\<lparr>idCount := Suc (idCount api2)\<rparr>) pfid
                      (newFilter now FilterTypeBlock \<lparr>fid = dfid, nodeUrl = url\<rparr> None)))))"

definition FilterApi_NewPendingTransactionFilter ::
  "Env \<Rightarrow> int \<Rightarrow> FilterApi \<Rightarrow> string \<Rightarrow> (ID \<times> error option) \<times> FilterApi" where
  "FilterApi_NewPendingTransactionFilter E now api url =
     (case loadOrGetFnClient E api url of
        (Inl err, api1) \<Rightarrow> ((nilRpcId, Some (filterProxyError E err)), api1)
      | (Inr c, api1) \<Rightarrow>
          (let api2 = api1\<lparr>calls := calls api1 @ [CallNewPendingTransactionFilter (URL c)]\<rparr> in
           case fnNewPendingTransactionFilter E (calls api1) (URL c) of
             Inl err \<Rightarrow> ((nilRpcId, Some (filterProxyError E err)), api2)
           | Inr dfid \<Rightarrow>
               (let pfid = NewID E (idCount api2)
                in ((pfid, None),
                    addFilter (api2\<lparr>idCount := Suc (idCount api2)\<rparr>) pfid
                      (newFilter now FilterTypePendingTxn \<lparr>fid = dfid, nodeUrl = url\<rparr> None)))))"

text \<open>
  \<^verbatim>\<open>NewFilter\<close>: the delegate log filter comes from the filter system, or from the full
  node when there is no filter system. The record is built with
  \<^verbatim>\<open>FilterTypePendingTxn\<close>, as the source has it. The metric update has no effect here.
\<close>

definition newLogDelegate :: "Env \<Rightarrow> FilterApi \<Rightarrow> Web3goClient \<Rightarrow> FilterQuery \<Rightarrow> (error + ID) \<times> FilterApi" where
  "newLogDelegate E api w3c q =
     (case sys api of
        Some fs \<Rightarrow>
          (let (r, fs', cs') = FilterSystem_NewFilter E fs (calls api) w3c q
           in (r, api\<lparr>sys := Some fs', calls := cs'\<rparr>))
      | None \<Rightarrow>
          (fnNewLogFilter E (calls api) (URL w3c) q,
           api\<lparr>calls := calls api @ [CallNewLogFilter (URL w3c) q]\<rparr>))"

definition FilterApi_NewFilter ::
  "Env \<Rightarrow> int \<Rightarrow> FilterApi \<Rightarrow> string \<Rightarrow> FilterQuery \<Rightarrow> (ID \<times> error option) \<times> FilterApi" where
  "FilterApi_NewFilter E now api url q =
     (case loadOrGetFnClient E api url of
        (Inl err, api1) \<Rightarrow> ((nilRpcId, Some (filterProxyError E err)), api1)
      | (Inr w3c, api1) \<Rightarrow>
          (case newLogDelegate E api1 w3c q of
             (Inl err, api2) \<Rightarrow> ((nilRpcId, Some (filterProxyError E err)), api2)
           | (Inr dfid, api2) \<Rightarrow>
               (let pfid = NewID E (idCount api2)
                in ((pfid, None),
                    addFilter (api2\<lparr>idCount := Suc (idCount api2)\<rparr>) pfid
                      (newFilter now FilterTypePendingTxn \<lparr>fid = dfid, nodeUrl = url\<rparr> (Some q))))))"

subsection \<open>UninstallFilter\<close>

definition uninstallDelegate ::
  "Env \<Rightarrow> FilterApi \<Rightarrow> Web3goClient \<Rightarrow> Filter \<Rightarrow> (bool \<times> error option) \<times> FilterApi" where
  "uninstallDelegate E api c f =
     (let viaFullNode =
            (fnUninstallFilter E (calls api) (URL c) (fid (del f)),
             api\<lparr>calls := calls api @ [CallUninstallFilter (URL c) (fid (del f))]\<rparr>)
      in case sys api of
           Some fs \<Rightarrow>
             if ftyp f = FilterTypeLog
             then (let (r, fs', cs') = FilterSystem_UninstallFilter E fs (calls api) (fid (del f))
                   in (r, api\<lparr>sys := Some fs', calls := cs'\<rparr>))
             else viaFullNode
         | None \<Rightarrow> viaFullNode)"

definition FilterApi_UninstallFilter ::
  "Env \<Rightarrow> FilterApi \<Rightarrow> string \<Rightarrow> ID \<Rightarrow> (bool \<times> error option) \<times> FilterApi" where
  "FilterApi_UninstallFilter E api url i =
     (case delFilter api i of
        (None, api1) \<Rightarrow> ((False, None), api1)
      | (Some f, api1) \<Rightarrow>
          (let (url1, api2) = useDelegateFullNode ''UninstallFilter'' api1 i f url in
           case loadOrGetFnClient E api2 url1 of
             (Inl err, api3) \<Rightarrow> ((False, Some (filterProxyError E err)), api3)
           | (Inr c, api3) \<Rightarrow> uninstallDelegate E api3 c f))"

subsection \<open>GetFilterLogs\<close>

definition delegateFilterLogs ::
  "Env \<Rightarrow> FilterApi \<Rightarrow> Web3goClient \<Rightarrow> Filter \<Rightarrow> (Log list option \<times> error option) \<times> FilterApi" where
  "delegateFilterLogs E api w3c f =
     (case sys api of
        Some fs \<Rightarrow>
          (let (r, fs', cs') = FilterSystem_GetFilterLogs E fs (calls api) (fid (del f))
           in (r, api\<lparr>sys := Some fs', calls := cs'\<rparr>))
      | None \<Rightarrow>
          (fnGetFilterLogs E (calls api) (URL w3c) (fid (del f)),
           api\<lparr>calls := calls api @ [CallGetFilterLogs (URL w3c) (fid (del f))]\<rparr>))"

definition FilterApi_GetFilterLogs ::
  "Env \<Rightarrow> FilterApi \<Rightarrow> string \<Rightarrow> ID \<Rightarrow> (Log list option \<times> error option) \<times> FilterApi" where
  "FilterApi_GetFilterLogs E api url i =
     (case getFilter api i of
        None \<Rightarrow> ((None, Some errFilterNotFound), api)
      | Some f \<Rightarrow>
          if ftyp f \<noteq> FilterTypeLog then ((None, Some errFilterNotFound), api)
          else
            (let (url1, api1) = useDelegateFullNode ''GetFilterLogs'' api i f url in
             case loadOrGetFnClient E api1 url1 of
               (Inl err, api2) \<Rightarrow> ((None, Some (filterProxyError E err)), api2)
             | (Inr w3c, api2) \<Rightarrow>
                 (case delegateFilterLogs E api2 w3c f of
                    ((logs, err), api3) \<Rightarrow>
                      (let api4 = (if IsFilterNotFoundError E err then snd (delFilter api3 i) else api3);
                           logs' = (case logs of None \<Rightarrow> ethEmptyLogs | Some ls \<Rightarrow> Some ls)
                       in ((logs', err), api4)))))"

subsection \<open>GetFilterChanges\<close>

definition delegateFilterChanges ::
  "Env \<Rightarrow> FilterApi \<Rightarrow> Web3goClient \<Rightarrow> Filter \<Rightarrow> (FilterChanges option \<times> error option) \<times> FilterApi" where
  "delegateFilterChanges E api w3c f =
     (let viaFullNode =
            (fnGetFilterChanges E (calls api) (URL w3c) (fid (del f)),
             api\<lparr>calls := calls api @ [CallGetFilterChanges (URL w3c) (fid (del f))]\<rparr>)
      in case sys api of
           Some fs \<Rightarrow>
             if ftyp f = FilterTypeLog
             then (let (r, fs', cs') = FilterSystem_GetFilterChanges E fs (calls api) (fid (del f))
                   in (r, api\<lparr>sys := Some fs', calls := cs'\<rparr>))
             else viaFullNode
         | None \<Rightarrow> viaFullNode)"

definition FilterApi_GetFilterChanges ::
  "Env \<Rightarrow> int \<Rightarrow> FilterApi \<Rightarrow> string \<Rightarrow> ID \<Rightarrow> (FilterChanges option \<times> error option) \<times> FilterApi" where
  "FilterApi_GetFilterChanges E now api url i =
     (case getFilter api i of
        None \<Rightarrow> ((None, Some errFilterNotFound), api)
      | Some f \<Rightarrow>
          (let (url1, api1) = useDelegateFullNode ''GetFilterChanges'' api i f url;
               api2 = refreshFilterPollingTime now api1 i
           in case loadOrGetFnClient E api2 url1 of
                (Inl err, api3) \<Rightarrow> ((None, Some (filterProxyError E err)), api3)
              | (Inr w3c, api3) \<Rightarrow>
                  (case delegateFilterChanges E api3 w3c f of
                     ((res, err), api4) \<Rightarrow>
                       ((res, err), if IsFilterNotFoundError E err then snd (delFilter api4 i) else api4))))"

subsection \<open>The reaper\<close>

text \<open>
  \<^verbatim>\<open>time.Since\<close> is a \<^verbatim>\<open>time.Duration\<close>, an \<^verbatim>\<open>int64\<close> of nanoseconds that
  saturates at both ends of its range; \<open>ttl\<close> is a \<^verbatim>\<open>time.Duration\<close> too.
\<close>

definition Since :: "int \<Rightarrow> int \<Rightarrow> int" where
  "Since now t = max (- (2 ^ 63)) (min (2 ^ 63 - 1) (now - t))"

text \<open>
  \<^verbatim>\<open>expireFilters\<close> ranges over the map; Go fixes no order, so the order in which the
  ids come is an argument. Calling \<^verbatim>\<open>UninstallFilter\<close> on a nil filter system
  dereferences a nil pointer: the panic is \<open>None\<close>.
\<close>

fun expireFilters :: "Env \<Rightarrow> 64 word \<Rightarrow> int \<Rightarrow> ID list \<Rightarrow> FilterApi \<Rightarrow> FilterApi option" where
  "expireFilters E ttl now [] api = Some api"
| "expireFilters E ttl now (i # ids) api =
     (case filters api i of
        None \<Rightarrow> expireFilters E ttl now ids api
      | Some f \<Rightarrow>
          if Since now (lastPollingTime f) < sint ttl then expireFilters E ttl now ids api
          else
            (let api1 = api\<lparr>filters := (filters api)(i := None)\<rparr> in
             if ftyp f = FilterTypeLog
             then (case sys api1 of
                     None \<Rightarrow> None
                   | Some fs \<Rightarrow>
                       (let (r, fs', cs') = FilterSystem_UninstallFilter E fs (calls api1) (fid (del f))
                        in expireFilters E ttl now ids (api1\<lparr>sys := Some fs', calls := cs'\<rparr>)))
             else expireFilters E ttl now ids api1))"

text \<open>
  One tick of \<^verbatim>\<open>timeoutLoop\<close>. \<^verbatim>\<open>time.NewTicker(timeout / 2)\<close> panics on a period
  that is not positive, so no tick comes then; Go's division truncates.
\<close>

definition timeoutLoop_tick :: "Env \<Rightarrow> 64 word \<Rightarrow> int \<Rightarrow> ID list \<Rightarrow> FilterApi \<Rightarrow> FilterApi option" where
  "timeoutLoop_tick E timeout now ids api =
     (if sint timeout sdiv 2 \<le> 0 then None else expireFilters E timeout now ids api)"

section \<open>The MySQL store\<close>

text \<open>
  Blocks, transactions, receipts and logs of the Conflux SDK, as far as the store reads
  them: the transactions of a block, the hash of a transaction, the logs of a receipt.
  A receipt map entry that is missing or nil is \<open>None\<close>.
\<close>

record StoreLog =
  LogData :: string

record Transaction =
  Hash :: Hash
  TxData :: string

record TransactionReceipt =
  ReceiptLogs :: "StoreLog list"
  ReceiptData :: string

record Block =
  BlockData :: string
  Transactions :: "Transaction list"

record EpochData =
  Blocks :: "Block list"
  Receipts :: "Hash \<rightharpoonup> TransactionReceipt"

text \<open>
  A row is what \<^verbatim>\<open>newBlock(block, pivot)\<close>, \<^verbatim>\<open>newTx(&tx, receipt)\<close> and
  \<^verbatim>\<open>newLog(&log)\<close> are built from. The tables are the list of rows created so far.
  \<^verbatim>\<open>Create\<close>, \<^verbatim>\<open>Begin\<close>, \<^verbatim>\<open>Rollback\<close> and \<^verbatim>\<open>Commit\<close> may fail: whether they
  do is a parameter.
\<close>

datatype row =
    BlockRow Block bool
  | TxRow Transaction TransactionReceipt
  | LogRow StoreLog

record Gorm =
  BeginError :: "row list \<Rightarrow> error option"
  CreateError :: "row list \<Rightarrow> row \<Rightarrow> error option"
  RollbackError :: "row list \<Rightarrow> error option"
  CommitError :: "row list \<Rightarrow> error option"

definition Create :: "Gorm \<Rightarrow> row list \<Rightarrow> row \<Rightarrow> error + row list" where
  "Create G dbTx r =
     (case CreateError G dbTx r of
        Some err \<Rightarrow> Inl err
      | None \<Rightarrow> Inr (dbTx @ [r]))"

subsection \<open>putOneWithTx\<close>

text \<open>The three nested loops, innermost first; an error ends all of them.\<close>

fun putLogs :: "Gorm \<Rightarrow> row list \<Rightarrow> StoreLog list \<Rightarrow> error + row list" where
  "putLogs G dbTx [] = Inr dbTx"
| "putLogs G dbTx (l # ls) =
     (case Create G dbTx (LogRow l) of
        Inl err \<Rightarrow> Inl (WithMessage err ''Failed to write event log'')
      | Inr dbTx' \<Rightarrow> putLogs G dbTx' ls)"

fun putTransactions ::
  "Gorm \<Rightarrow> row list \<Rightarrow> (Hash \<rightharpoonup> TransactionReceipt) \<Rightarrow> Transaction list \<Rightarrow> error + row list" where
  "putTransactions G dbTx rs [] = Inr dbTx"
| "putTransactions G dbTx rs (tx # txs) =
     (case rs (Hash tx) of
        None \<Rightarrow> putTransactions G dbTx rs txs
      | Some receipt \<Rightarrow>
          (case Create G dbTx (TxRow tx receipt) of
             Inl err \<Rightarrow> Inl (WithMessage err ''Failed to write tx and receipt'')
           | Inr dbTx1 \<Rightarrow>
               (case putLogs G dbTx1 (ReceiptLogs receipt) of
                  Inl err \<Rightarrow> Inl err
                | Inr dbTx2 \<Rightarrow> putTransactions G dbTx2 rs txs)))"

fun putBlocks ::
  "Gorm \<Rightarrow> row list \<Rightarrow> (Hash \<rightharpoonup> TransactionReceipt) \<Rightarrow> int \<Rightarrow> int \<Rightarrow> Block list \<Rightarrow> error + row list" where
  "putBlocks G dbTx rs pivotIndex i [] = Inr dbTx"
| "putBlocks G dbTx rs pivotIndex i (block # blocks) =
     (case Create G dbTx (BlockRow block (i = pivotIndex)) of
        Inl err \<Rightarrow> Inl (WithMessage err ''Failed to write block'')
      | Inr dbTx1 \<Rightarrow>
          (case putTransactions G dbTx1 rs (Transactions block) of
             Inl err \<Rightarrow> Inl err
           | Inr dbTx2 \<Rightarrow> putBlocks G dbTx2 rs pivotIndex (i + 1) blocks))"

definition putOneWithTx :: "Gorm \<Rightarrow> row list \<Rightarrow> EpochData \<Rightarrow> error + row list" where
  "putOneWithTx G dbTx data =
     (let pivotIndex = int (length (Blocks data)) - 1
      in putBlocks G dbTx (Receipts data) pivotIndex 0 (Blocks data))"

subsection \<open>execWithTx and the two writers\<close>

text \<open>
  \<^verbatim>\<open>execWithTx\<close> returns the error and the tables: those of the transaction after a
  commit, the old ones after a rollback or a failed commit. A failed rollback is only
  logged.
\<close>

definition execWithTx ::
  "Gorm \<Rightarrow> row list \<Rightarrow> (row list \<Rightarrow> error + row list) \<Rightarrow> error option \<times> row list" where
  "execWithTx G db txConsumeFunc =
     (case BeginError G db of
        Some err \<Rightarrow> (Some (WithMessage err ''Failed to begin db tx''), db)
      | None \<Rightarrow>
          (case txConsumeFunc db of
             Inl err \<Rightarrow> (Some (WithMessage err ''Failed to handle with db tx''), db)
           | Inr dbTx \<Rightarrow>
               (case CommitError G dbTx of
                  Some err \<Rightarrow> (Some (WithMessage err ''Failed commit db tx''), db)
                | None \<Rightarrow> (None, dbTx))))"

fun putEach :: "Gorm \<Rightarrow> row list \<Rightarrow> EpochData list \<Rightarrow> error + row list" where
  "putEach G dbTx [] = Inr dbTx"
| "putEach G dbTx (data # dataSlice) =
     (case putOneWithTx G dbTx data of
        Inl err \<Rightarrow> Inl err
      | Inr dbTx' \<Rightarrow> putEach G dbTx' dataSlice)"

definition PutEpochDataSlice :: "Gorm \<Rightarrow> row list \<Rightarrow> EpochData list \<Rightarrow> error option \<times> row list" where
  "PutEpochDataSlice G db dataSlice = execWithTx G db (\<lambda>dbTx. putEach G dbTx dataSlice)"

definition PutEpochData :: "Gorm \<Rightarrow> row list \<Rightarrow> EpochData \<Rightarrow> error option \<times> row list" where
  "PutEpochData G db data = PutEpochDataSlice G db [data]"

text \<open>
  The rows the spec asks for, in its words: each block's metadata with a pivot flag,
  true for the last block of the epoch and false otherwise; each transaction whose
  receipt is known, and its logs.
\<close>

definition txRows :: "(Hash \<rightharpoonup> TransactionReceipt) \<Rightarrow> Transaction \<Rightarrow> row list" where
  "txRows rs tx =
     (case rs (Hash tx) of
        None \<Rightarrow> []
      | Some receipt \<Rightarrow> TxRow tx receipt # map LogRow (ReceiptLogs receipt))"

definition epochRows :: "EpochData \<Rightarrow> row list" where
  "epochRows data =
     concat (map (\<lambda>(i, block).
                    BlockRow block (Suc i = length (Blocks data))
                      # concat (map (txRows (Receipts data)) (Transactions block)))
                 (enumerate 0 (Blocks data)))"

section \<open>Auxiliary notions for the statements\<close>


fun isSysUninstallFilter :: "call \<Rightarrow> bool" where
  "isSysUninstallFilter (SysUninstallFilter i) = True"
| "isSysUninstallFilter c = False"


fun isBlockRow :: "row \<Rightarrow> bool" where
  "isBlockRow (BlockRow b p) = True"
| "isBlockRow r = False"

text \<open>
  The idle time of a record has reached the ttl. For a ttl that lets the ticker run, this
  is when the test \<^verbatim>\<open>time.Since(f.lastPollingTime) < ttl\<close> of the reaper fails.
\<close>

definition expired :: "64 word \<Rightarrow> int \<Rightarrow> Filter \<Rightarrow> bool" where
  "expired ttl now f = (sint ttl \<le> now - lastPollingTime f)"

definition cascaded :: "64 word \<Rightarrow> int \<Rightarrow> FilterApi \<Rightarrow> ID \<Rightarrow> call option" where
  "cascaded ttl now api i =
     (case filters api i of
        None \<Rightarrow> None
      | Some f \<Rightarrow>
          if expired ttl now f \<and> ftyp f = FilterTypeLog
          then Some (SysUninstallFilter (fid (del f))) else None)"

section \<open>Concrete inputs\<close>

text \<open>
  An environment with helpful full nodes: every creation succeeds; a poll of the block
  filter is answered with two block hashes, any other poll, by a full node or a stub that
  knows the filter, with two logs, of which only the first matches the query of scenario
  S1 of the spec; the hardfork block is 100.
\<close>

fun isFilterNotFound :: "error \<Rightarrow> bool" where
  "isFilterNotFound errFilterNotFound = True"
| "isFilterNotFound (WithMessage e m) = isFilterNotFound e"
| "isFilterNotFound e = False"

definition logA150 :: Log where
  "logA150 = \<lparr>Address = ''0xA'', LogTopics = [], Data = [], BlockNumber = 150, TxHash = ''0xt1'',
               TxIndex = 0, LogBlockHash = ''0xb150'', Index = 0, Removed = False\<rparr>"

definition logB151 :: Log where
  "logB151 = \<lparr>Address = ''0xB'', LogTopics = [], Data = [], BlockNumber = 151, TxHash = ''0xt2'',
               TxIndex = 0, LogBlockHash = ''0xb151'', Index = 0, Removed = False\<rparr>"

definition logA50 :: Log where
  "logA50 = \<lparr>Address = ''0xA'', LogTopics = [], Data = [], BlockNumber = 50, TxHash = ''0xt0'',
              TxIndex = 0, LogBlockHash = ''0xb50'', Index = 0, Removed = False\<rparr>"

definition query0 :: FilterQuery where
  "query0 = \<lparr>BlockHash = None, FromBlock = Some 100, ToBlock = Some 200,
              Addresses = [''0xA''], Topics = []\<rparr>"

definition queryOld :: FilterQuery where
  "queryOld = \<lparr>BlockHash = None, FromBlock = Some 10, ToBlock = Some 90,
                Addresses = [''0xA''], Topics = []\<rparr>"

definition E0 :: Env where
  "E0 = \<lparr>IncludeEthLogAddrs = (\<lambda>l as. Address l \<in> set as),
          MatchEthLogTopics = (\<lambda>l ts. length ts \<le> length (LogTopics l)),
          Url2NodeName = (\<lambda>u. u),
          NewEthClient = (\<lambda>cs u. None),
          NewID = (\<lambda>n. if n = 0 then ''0xa1'' else if n = 1 then ''0xa2'' else ''0xa3''),
          filterProxyError = (\<lambda>e. WithMessage e ''filter proxy error''),
          IsFilterNotFoundError = (\<lambda>e. case e of None \<Rightarrow> False | Some x \<Rightarrow> isFilterNotFound x),
          fnNewBlockFilter = (\<lambda>cs u. Inr ''0xb1''),
          fnNewPendingTransactionFilter = (\<lambda>cs u. Inr ''0xc1''),
          fnNewLogFilter = (\<lambda>cs u q. Inr ''0xd1''),
          fnUninstallFilter = (\<lambda>cs u i. (True, None)),
          fnGetFilterLogs = (\<lambda>cs u i. (Some [logA150], None)),
          fnGetFilterChanges = (\<lambda>cs u i. if i = ''0xb1''
                                          then (Some \<lparr>Logs = [], Hashes = [''0xb150'', ''0xb151'']\<rparr>, None)
                                          else (Some \<lparr>Logs = [logA150, logB151], Hashes = []\<rparr>, None)),
          stubNewFilter = (\<lambda>cs st q. (Inr ''0xd1'', st\<lparr>delegates := (delegates st)(''0xd1'' \<mapsto> \<lparr>crit = q\<rparr>)\<rparr>)),
          stubUninstallFilter = (\<lambda>cs st i. (case delegates st i of None \<Rightarrow> False | Some c \<Rightarrow> True,
                                             st\<lparr>delegates := (delegates st)(i := None)\<rparr>)),
          stubGetFilterChanges = (\<lambda>cs st i. case delegates st i of
                                     None \<Rightarrow> (Inl errFilterNotFound, st)
                                   | Some c \<Rightarrow> (Inr \<lparr>Logs = [logA150, logB151], Hashes = []\<rparr>, st)),
          ParseEthLogFilterType = (\<lambda>q. Some 1),
          GetNetworkId = (\<lambda>cs u. Inr 1030),
          GetEthHardforkBlockNumber = (\<lambda>c. 100),
          NormalizeEthLogFilter = (\<lambda>cs u flag q h. (q, None)),
          ValidateEthLogFilter = (\<lambda>flag q. None),
          GetLogs = (\<lambda>cs u q. (Some [logA150], True, None))\<rparr>"

text \<open>
  A filter system and a registry written down as they would stand with a block filter and
  two log filters whose records carry the type log.
\<close>

definition stub0 :: proxyStub where
  "stub0 = \<lparr>client = \<lparr>URL = ''N1''\<rparr>,
            delegates = [''0xd1'' \<mapsto> \<lparr>crit = query0\<rparr>, ''0xd2'' \<mapsto> \<lparr>crit = queryOld\<rparr>]\<rparr>"

definition fs0 :: FilterSystem where
  "fs0 = \<lparr>fnProxies = [''N1'' \<mapsto> 0], filterProxies = [''0xd1'' \<mapsto> 0, ''0xd2'' \<mapsto> 0],
           heap = (\<lambda>p. stub0), nextAddr = 1\<rparr>"

definition fBlock :: Filter where
  "fBlock = \<lparr>ftyp = FilterTypeBlock, del = \<lparr>fid = ''0xb1'', nodeUrl = ''N1''\<rparr>,
              query = None, lastPollingTime = 0\<rparr>"

definition fLog :: Filter where
  "fLog = \<lparr>ftyp = FilterTypeLog, del = \<lparr>fid = ''0xd1'', nodeUrl = ''N1''\<rparr>,
            query = Some query0, lastPollingTime = 1000\<rparr>"

definition fLogOld :: Filter where
  "fLogOld = \<lparr>ftyp = FilterTypeLog, del = \<lparr>fid = ''0xd2'', nodeUrl = ''N1''\<rparr>,
               query = Some queryOld, lastPollingTime = 1400\<rparr>"

definition api0 :: FilterApi where
  "api0 = \<lparr>sys = Some fs0,
            filters = [''0xa1'' \<mapsto> fBlock, ''0xa2'' \<mapsto> fLog, ''0xa3'' \<mapsto> fLogOld],
            clients = [''N1'' \<mapsto> \<lparr>URL = ''N1''\<rparr>],
            calls = [], infos = [], idCount = 3\<rparr>"

text \<open>
  The facade after \<^verbatim>\<open>NewBlockFilter\<close> and \<^verbatim>\<open>NewFilter\<close> on node N1 at time 0,
  starting from an empty one: the block filter has the id 0xa1, the log filter 0xa2.
  And the filter system after \<^verbatim>\<open>NewFilter\<close> with a query that ends before the
  hardfork block.
\<close>

definition apiR :: FilterApi where
  "apiR = snd (FilterApi_NewFilter E0 0
                 (snd (FilterApi_NewBlockFilter E0 0 (NewFilterApi (Some NewFilterSystem)) ''N1''))
                 ''N1'' query0)"

definition fPending :: Filter where
  "fPending = \<lparr>ftyp = FilterTypePendingTxn, del = \<lparr>fid = ''0xd1'', nodeUrl = ''N1''\<rparr>,
                query = Some query0, lastPollingTime = 0\<rparr>"

definition fsOld :: FilterSystem where
  "fsOld = fst (snd (FilterSystem_NewFilter E0 NewFilterSystem [] \<lparr>URL = ''N1''\<rparr> queryOld))"

text \<open>The same environment with a full node that no longer knows the filter to uninstall.\<close>

definition E1 :: Env where
  "E1 = E0\<lparr>fnUninstallFilter := (\<lambda>cs u i. (False, None))\<rparr>"


text \<open>The same environment when no client can be made for a full node.\<close>

definition E3 :: Env where
  "E3 = E0\<lparr>NewEthClient := (\<lambda>cs u. Some (ErrMessage ''dial failed''))\<rparr>"




text \<open>A batch of two blocks: the first holds an executed and an unexecuted transaction.\<close>

definition G0 :: Gorm where
  "G0 = \<lparr>BeginError = (\<lambda>db. None), CreateError = (\<lambda>db r. None),
          RollbackError = (\<lambda>db. None), CommitError = (\<lambda>db. None)\<rparr>"

definition tx1 :: Transaction where "tx1 = \<lparr>Hash = ''0xh1'', TxData = ''a''\<rparr>"
definition tx2 :: Transaction where "tx2 = \<lparr>Hash = ''0xh2'', TxData = ''b''\<rparr>"
definition tx3 :: Transaction where "tx3 = \<lparr>Hash = ''0xh3'', TxData = ''c''\<rparr>"

definition receipt1 :: TransactionReceipt where
  "receipt1 = \<lparr>ReceiptLogs = [\<lparr>LogData = ''l1''\<rparr>], ReceiptData = ''r1''\<rparr>"

definition receipt3 :: TransactionReceipt where
  "receipt3 = \<lparr>ReceiptLogs = [], ReceiptData = ''r3''\<rparr>"

definition block1 :: Block where
  "block1 = \<lparr>BlockData = ''b1'', Transactions = [tx1, tx2]\<rparr>"

definition block2 :: Block where
  "block2 = \<lparr>BlockData = ''b2'', Transactions = [tx3]\<rparr>"

definition data0 :: EpochData where
  "data0 = \<lparr>Blocks = [block1, block2], Receipts = [''0xh1'' \<mapsto> receipt1, ''0xh3'' \<mapsto> receipt3]\<rparr>"

section \<open>Properties of filterLogs\<close>

lemma filterLogs_filter:
  "filterLogs E logs q =
     filter (\<lambda>l. \<not> fromBlockSkips q l \<and> \<not> toBlockSkips q l
                 \<and> \<not> addressSkips E q l \<and> \<not> topicSkips E q l) logs"
  by (induction logs) simp_all

text \<open>
  C10. \<^verbatim>\<open>filterLogs\<close> keeps exactly the logs that no guard excludes: a log is dropped
  if and only if a non-negative FromBlock exceeds its block number, or a non-negative
  ToBlock is below it, or a non-empty address list does not include it, or a non-empty
  topic set does not match it. A nil or negative FromBlock (ToBlock) excludes no log:
  the result is the one for the query without that bound. The result is a subsequence
  of the input, so the order of the input is preserved.
\<close>

theorem filterLogs_keeps_unless_excluded:
  "filterLogs E logs q =
     filter (\<lambda>l. \<not> ((\<exists>fb. FromBlock q = Some fb \<and> 0 \<le> sint fb \<and> BlockNumber l < fb)
                   \<or> (\<exists>tb. ToBlock q = Some tb \<and> 0 \<le> sint tb \<and> tb < BlockNumber l)
                   \<or> (Addresses q \<noteq> [] \<and> \<not> IncludeEthLogAddrs E l (Addresses q))
                   \<or> (Topics q \<noteq> [] \<and> \<not> MatchEthLogTopics E l (Topics q)))) logs
   \<and> ((FromBlock q = None \<or> (\<exists>fb. FromBlock q = Some fb \<and> sint fb < 0))
        \<longrightarrow> filterLogs E logs q = filterLogs E logs (q\<lparr>FromBlock := None\<rparr>))
   \<and> ((ToBlock q = None \<or> (\<exists>tb. ToBlock q = Some tb \<and> sint tb < 0))
        \<longrightarrow> filterLogs E logs q = filterLogs E logs (q\<lparr>ToBlock := None\<rparr>))
   \<and> subseq (filterLogs E logs q) logs"
proof -
  have keep: "\<And>l. (\<not> fromBlockSkips q l \<and> \<not> toBlockSkips q l
                    \<and> \<not> addressSkips E q l \<and> \<not> topicSkips E q l) =
      (\<not> ((\<exists>fb. FromBlock q = Some fb \<and> 0 \<le> sint fb \<and> BlockNumber l < fb)
          \<or> (\<exists>tb. ToBlock q = Some tb \<and> 0 \<le> sint tb \<and> tb < BlockNumber l)
          \<or> (Addresses q \<noteq> [] \<and> \<not> IncludeEthLogAddrs E l (Addresses q))
          \<or> (Topics q \<noteq> [] \<and> \<not> MatchEthLogTopics E l (Topics q))))"
    by (auto simp: fromBlockSkips_def toBlockSkips_def addressSkips_def topicSkips_def
             split: option.splits)
  have a: "filterLogs E logs q =
     filter (\<lambda>l. \<not> ((\<exists>fb. FromBlock q = Some fb \<and> 0 \<le> sint fb \<and> BlockNumber l < fb)
                   \<or> (\<exists>tb. ToBlock q = Some tb \<and> 0 \<le> sint tb \<and> tb < BlockNumber l)
                   \<or> (Addresses q \<noteq> [] \<and> \<not> IncludeEthLogAddrs E l (Addresses q))
                   \<or> (Topics q \<noteq> [] \<and> \<not> MatchEthLogTopics E l (Topics q)))) logs"
    unfolding filterLogs_filter keep ..
  have b: "(FromBlock q = None \<or> (\<exists>fb. FromBlock q = Some fb \<and> sint fb < 0))
        \<longrightarrow> filterLogs E logs q = filterLogs E logs (q\<lparr>FromBlock := None\<rparr>)"
    by (auto simp: filterLogs_filter fromBlockSkips_def toBlockSkips_def addressSkips_def
                   topicSkips_def intro!: filter_cong)
  have c: "(ToBlock q = None \<or> (\<exists>tb. ToBlock q = Some tb \<and> sint tb < 0))
        \<longrightarrow> filterLogs E logs q = filterLogs E logs (q\<lparr>ToBlock := None\<rparr>)"
    by (auto simp: filterLogs_filter fromBlockSkips_def toBlockSkips_def addressSkips_def
                   topicSkips_def intro!: filter_cong)
  have d: "subseq (filterLogs E logs q) logs"
    by (simp add: filterLogs_filter)
  from a b c d show ?thesis by blast
qed

text \<open>
  At the query of scenario S1 (address 0xA, blocks 100 to 200) and logs at blocks 50,
  150 and 151 (the last one of address 0xB), only the log at block 150 stays; with the
  tag \<open>-1\<close> as a bound, that bound drops nothing.
\<close>

theorem filterLogs_keeps_unless_excluded_witness:
  "filterLogs E0 [logA50, logA150, logB151] query0 = [logA150]
   \<and> sint (- 1 :: 64 word) < 0
   \<and> filterLogs E0 [logA50, logA150, logB151] (query0\<lparr>FromBlock := Some (- 1)\<rparr>)
       = filterLogs E0 [logA50, logA150, logB151] (query0\<lparr>FromBlock := None\<rparr>)
   \<and> filterLogs E0 [logA50, logA150, logB151] (query0\<lparr>FromBlock := Some (- 1)\<rparr>) = [logA50, logA150]
   \<and> filterLogs E0 [logA50, logA150, logB151] (query0\<lparr>ToBlock := Some (- 1)\<rparr>)
       = filterLogs E0 [logA50, logA150, logB151] (query0\<lparr>ToBlock := None\<rparr>)
   \<and> subseq (filterLogs E0 [logA50, logA150, logB151] query0) [logA50, logA150, logB151]"
  using filterLogs_keeps_unless_excluded [of E0 "[logA50, logA150, logB151]" query0]
        filterLogs_keeps_unless_excluded [of E0 "[logA50, logA150, logB151]" "query0\<lparr>FromBlock := Some (- 1)\<rparr>"]
        filterLogs_keeps_unless_excluded [of E0 "[logA50, logA150, logB151]" "query0\<lparr>ToBlock := Some (- 1)\<rparr>"]
  by (simp add: E0_def query0_def logA50_def logA150_def logB151_def fromBlockSkips_def
        toBlockSkips_def addressSkips_def topicSkips_def)

section \<open>Properties of the store\<close>

lemma Create_rows: "Create G dbTx r = Inr dbTx' \<Longrightarrow> dbTx' = dbTx @ [r]"
  by (auto simp: Create_def split: option.splits)

lemma txRows_None: "rs (Hash tx) = None \<Longrightarrow> txRows rs tx = []"
  by (simp add: txRows_def)

lemma txRows_Some:
  "rs (Hash tx) = Some receipt \<Longrightarrow> txRows rs tx = TxRow tx receipt # map LogRow (ReceiptLogs receipt)"
  by (simp add: txRows_def)

lemma putLogs_rows: "putLogs G dbTx ls = Inr dbTx' \<Longrightarrow> dbTx' = dbTx @ map LogRow ls"
proof (induction ls arbitrary: dbTx)
  case Nil
  then show ?case by simp
next
  case (Cons l ls)
  from Cons.prems obtain d1 where
    c: "Create G dbTx (LogRow l) = Inr d1" and r: "putLogs G d1 ls = Inr dbTx'"
    by (auto split: sum.splits)
  from Create_rows [OF c] Cons.IH [OF r] show ?case by simp
qed

lemma putTransactions_rows:
  "putTransactions G dbTx rs txs = Inr dbTx' \<Longrightarrow> dbTx' = dbTx @ concat (map (txRows rs) txs)"
proof (induction txs arbitrary: dbTx)
  case Nil
  then show ?case by simp
next
  case (Cons tx txs)
  show ?case
  proof (cases "rs (Hash tx)")
    case None
    with Cons show ?thesis by (simp add: txRows_None)
  next
    case (Some receipt)
    with Cons.prems obtain d1 d2 where
      c: "Create G dbTx (TxRow tx receipt) = Inr d1" and
      l: "putLogs G d1 (ReceiptLogs receipt) = Inr d2" and
      r: "putTransactions G d2 rs txs = Inr dbTx'"
      by (auto split: sum.splits)
    from c have "d1 = dbTx @ [TxRow tx receipt]" by (rule Create_rows)
    moreover from l have "d2 = d1 @ map LogRow (ReceiptLogs receipt)" by (rule putLogs_rows)
    moreover from r have "dbTx' = d2 @ concat (map (txRows rs) txs)" by (rule Cons.IH)
    ultimately show ?thesis using Some by (simp add: txRows_Some [of rs tx receipt])
  qed
qed

lemma putBlocks_rows:
  "putBlocks G dbTx rs pv (int n) blocks = Inr dbTx' \<Longrightarrow>
   dbTx' = dbTx @ concat (map (\<lambda>(j, block). BlockRow block (int j = pv)
                                   # concat (map (txRows rs) (Transactions block)))
                              (enumerate n blocks))"
proof (induction blocks arbitrary: dbTx n)
  case Nil
  then show ?case by simp
next
  case (Cons block blocks)
  from Cons.prems obtain d1 d2 where
    c: "Create G dbTx (BlockRow block (int n = pv)) = Inr d1" and
    t: "putTransactions G d1 rs (Transactions block) = Inr d2" and
    r: "putBlocks G d2 rs pv (int (Suc n)) blocks = Inr dbTx'"
    by (auto split: sum.splits simp: add.commute)
  from c have "d1 = dbTx @ [BlockRow block (int n = pv)]" by (rule Create_rows)
  moreover from t have "d2 = d1 @ concat (map (txRows rs) (Transactions block))"
    by (rule putTransactions_rows)
  moreover note Cons.IH [OF r]
  ultimately show ?case by simp
qed

lemma putOneWithTx_rows:
  assumes "putOneWithTx G dbTx data = Inr dbTx'"
  shows "dbTx' = dbTx @ epochRows data"
proof -
  have eq: "\<And>j. (int j = int (length (Blocks data)) - 1) = (Suc j = length (Blocks data))"
    by auto
  from assms have "putBlocks G dbTx (Receipts data) (int (length (Blocks data)) - 1) (int 0) (Blocks data) = Inr dbTx'"
    by (simp add: putOneWithTx_def)
  from putBlocks_rows [OF this] show ?thesis
    by (simp add: epochRows_def eq)
qed

lemma putEach_rows:
  "putEach G dbTx dataSlice = Inr dbTx' \<Longrightarrow> dbTx' = dbTx @ concat (map epochRows dataSlice)"
proof (induction dataSlice arbitrary: dbTx)
  case Nil
  then show ?case by simp
next
  case (Cons data dataSlice)
  from Cons.prems obtain d1 where
    a: "putOneWithTx G dbTx data = Inr d1" and b: "putEach G d1 dataSlice = Inr dbTx'"
    by (auto split: sum.splits)
  from putOneWithTx_rows [OF a] Cons.IH [OF b] show ?case by simp
qed

lemma PutEpochDataSlice_rows:
  assumes "PutEpochDataSlice G db dataSlice = (None, db')"
  shows "db' = db @ concat (map epochRows dataSlice)"
  using assms
  by (auto simp: PutEpochDataSlice_def execWithTx_def split: option.splits sum.splits
           dest: putEach_rows)

lemma TxRow_in_txRows:
  "TxRow tx receipt \<in> set (txRows rs tx') \<longleftrightarrow> tx' = tx \<and> rs (Hash tx) = Some receipt"
  by (cases "rs (Hash tx')") (auto simp: txRows_def)

lemma LogRow_in_txRows:
  "LogRow l \<in> set (txRows rs tx) \<longleftrightarrow> (\<exists>receipt. rs (Hash tx) = Some receipt \<and> l \<in> set (ReceiptLogs receipt))"
  by (cases "rs (Hash tx)") (auto simp: txRows_def)

lemma TxRow_in_blocks:
  "TxRow tx receipt \<in> set (concat (map (\<lambda>(i, block). BlockRow block (P i)
                                   # concat (map (txRows rs) (Transactions block))) (enumerate n bs)))
   \<longleftrightarrow> (\<exists>block \<in> set bs. tx \<in> set (Transactions block) \<and> rs (Hash tx) = Some receipt)"
  by (induction bs arbitrary: n) (auto simp: TxRow_in_txRows)

lemma LogRow_in_blocks:
  "LogRow l \<in> set (concat (map (\<lambda>(i, block). BlockRow block (P i)
                                   # concat (map (txRows rs) (Transactions block))) (enumerate n bs)))
   \<longleftrightarrow> (\<exists>block \<in> set bs. \<exists>tx \<in> set (Transactions block). \<exists>receipt.
          rs (Hash tx) = Some receipt \<and> l \<in> set (ReceiptLogs receipt))"
  by (induction bs arbitrary: n) (auto simp: LogRow_in_txRows)

lemma TxRow_in_epochRows:
  "TxRow tx receipt \<in> set (epochRows data) \<longleftrightarrow>
     (\<exists>block \<in> set (Blocks data). tx \<in> set (Transactions block) \<and> Receipts data (Hash tx) = Some receipt)"
  unfolding epochRows_def by (rule TxRow_in_blocks)

lemma LogRow_in_epochRows:
  "LogRow l \<in> set (epochRows data) \<longleftrightarrow>
     (\<exists>block \<in> set (Blocks data). \<exists>tx \<in> set (Transactions block). \<exists>receipt.
         Receipts data (Hash tx) = Some receipt \<and> l \<in> set (ReceiptLogs receipt))"
  unfolding epochRows_def by (rule LogRow_in_blocks)

lemma filter_isBlockRow_txRows: "filter isBlockRow (txRows rs tx) = []"
  by (auto simp: txRows_def filter_empty_conv split: option.splits)

lemma filter_isBlockRow_concat_txRows: "filter isBlockRow (concat (map (txRows rs) txs)) = []"
  by (induction txs) (simp_all add: filter_isBlockRow_txRows)

lemma blockRows_aux:
  "filter isBlockRow (concat (map (\<lambda>(i, block). BlockRow block (P i) # concat (map (txRows rs) (Transactions block))) (enumerate n bs)))
   = map (\<lambda>(i, block). BlockRow block (P i)) (enumerate n bs)"
  by (induction bs arbitrary: n) (simp_all add: filter_isBlockRow_concat_txRows)

lemma blockRows_epochRows:
  "filter isBlockRow (epochRows data) =
     map (\<lambda>(i, block). BlockRow block (Suc i = length (Blocks data))) (enumerate 0 (Blocks data))"
  unfolding epochRows_def by (rule blockRows_aux)


text \<open>
  C9. When \<^verbatim>\<open>PutEpochDataSlice\<close> (or \<^verbatim>\<open>PutEpochData\<close>, for one batch) persists its
  batches, the rows added to the store are, batch by batch, the rows of \<open>epochRows\<close>.
  Among the rows of a batch, a transaction of a block has a row if and only if the batch
  holds a receipt for its hash, and the row carries that receipt; a log row is a log of
  the receipt of such a transaction, so a skipped transaction contributes no log; and
  the block rows are the blocks of the batch in order, with the pivot flag true exactly
  for the last block.
\<close>

theorem PutEpochData_writes_executed_transactions:
  "(PutEpochDataSlice G db dataSlice = (None, db') \<longrightarrow> db' = db @ concat (map epochRows dataSlice))
   \<and> (PutEpochData G db data = (None, db'') \<longrightarrow> db'' = db @ epochRows data)
   \<and> (\<forall>block \<in> set (Blocks data). \<forall>tx \<in> set (Transactions block).
         (\<exists>receipt. TxRow tx receipt \<in> set (epochRows data)) = (Receipts data (Hash tx) \<noteq> None))
   \<and> (TxRow tx receipt \<in> set (epochRows data) \<longleftrightarrow>
         (\<exists>block \<in> set (Blocks data). tx \<in> set (Transactions block)
             \<and> Receipts data (Hash tx) = Some receipt))
   \<and> (LogRow l \<in> set (epochRows data) \<longleftrightarrow>
         (\<exists>block \<in> set (Blocks data). \<exists>tx \<in> set (Transactions block). \<exists>receipt.
             Receipts data (Hash tx) = Some receipt \<and> l \<in> set (ReceiptLogs receipt)))
   \<and> filter isBlockRow (epochRows data) =
         map (\<lambda>(i, block). BlockRow block (Suc i = length (Blocks data))) (enumerate 0 (Blocks data))"
proof -
  have a: "PutEpochDataSlice G db dataSlice = (None, db') \<longrightarrow> db' = db @ concat (map epochRows dataSlice)"
    by (auto dest: PutEpochDataSlice_rows)
  have b: "PutEpochData G db data = (None, db'') \<longrightarrow> db'' = db @ epochRows data"
    by (auto simp: PutEpochData_def dest: PutEpochDataSlice_rows)
  have c: "\<forall>block \<in> set (Blocks data). \<forall>tx \<in> set (Transactions block).
         (\<exists>receipt. TxRow tx receipt \<in> set (epochRows data)) = (Receipts data (Hash tx) \<noteq> None)"
    by (auto simp: TxRow_in_epochRows)
  note d = TxRow_in_epochRows [of tx receipt data]
  note e = LogRow_in_epochRows [of l data]
  note f = blockRows_epochRows [of data]
  from a b c d e f show ?thesis by blast
qed

text \<open>
  A batch of two blocks on a store that never fails: the unexecuted transaction of the
  first block gets no row, and only the second block is the pivot.
\<close>

theorem PutEpochData_writes_executed_transactions_witness:
  "PutEpochDataSlice G0 [] [data0] =
     (None, [BlockRow block1 False, TxRow tx1 receipt1, LogRow \<lparr>LogData = ''l1''\<rparr>,
             BlockRow block2 True, TxRow tx3 receipt3])
   \<and> PutEpochData G0 [] data0 =
     (None, [BlockRow block1 False, TxRow tx1 receipt1, LogRow \<lparr>LogData = ''l1''\<rparr>,
             BlockRow block2 True, TxRow tx3 receipt3])
   \<and> epochRows data0 =
       [BlockRow block1 False, TxRow tx1 receipt1, LogRow \<lparr>LogData = ''l1''\<rparr>,
        BlockRow block2 True, TxRow tx3 receipt3]
   \<and> block1 \<in> set (Blocks data0) \<and> tx2 \<in> set (Transactions block1)
   \<and> Receipts data0 (Hash tx2) = None
   \<and> (\<nexists>receipt. TxRow tx2 receipt \<in> set (epochRows data0))
   \<and> Receipts data0 (Hash tx1) = Some receipt1
   \<and> TxRow tx1 receipt1 \<in> set (epochRows data0)
   \<and> filter isBlockRow (epochRows data0) = [BlockRow block1 False, BlockRow block2 True]"
proof -
  let ?rows = "[BlockRow block1 False, TxRow tx1 receipt1, LogRow \<lparr>LogData = ''l1''\<rparr>,
                BlockRow block2 True, TxRow tx3 receipt3]"
  have p: "PutEpochData G0 [] data0 = (None, ?rows)"
    by (simp add: PutEpochData_def PutEpochDataSlice_def execWithTx_def putOneWithTx_def G0_def
          Create_def data0_def block1_def block2_def tx1_def tx2_def tx3_def receipt1_def
          receipt3_def)
  then have q: "PutEpochDataSlice G0 [] [data0] = (None, ?rows)"
    by (simp add: PutEpochData_def)
  have m: "block1 \<in> set (Blocks data0)" "tx2 \<in> set (Transactions block1)"
          "tx1 \<in> set (Transactions block1)"
          "Receipts data0 (Hash tx2) = None" "Receipts data0 (Hash tx1) = Some receipt1"
    by (simp_all add: data0_def block1_def tx1_def tx2_def)
  have n: "map (\<lambda>(i, block). BlockRow block (Suc i = length (Blocks data0))) (enumerate 0 (Blocks data0))
           = [BlockRow block1 False, BlockRow block2 True]"
    by (simp add: data0_def)
  from PutEpochData_writes_executed_transactions
         [of G0 "[]" "[data0]" ?rows data0 ?rows tx1 receipt1 "\<lparr>LogData = ''l1''\<rparr>"]
       p q m n
  show ?thesis by auto
qed

section \<open>Evaluating the facade on concrete inputs\<close>

lemmas facade_defs =
  FilterApi_UninstallFilter_def FilterApi_GetFilterLogs_def FilterApi_GetFilterChanges_def
  FilterApi_NewFilter_def FilterApi_NewBlockFilter_def FilterApi_NewPendingTransactionFilter_def
  getFilter_def addFilter_def delFilter_def refreshFilterPollingTime_def loadOrGetFnClient_def
  useDelegateFullNode_def IsDelegateFullNode_def newLogDelegate_def uninstallDelegate_def
  delegateFilterLogs_def delegateFilterChanges_def newFilter_def nilRpcId_def ethEmptyLogs_def
  NewFilterApi_def

lemmas system_defs =
  FilterSystem_NewFilter_def FilterSystem_UninstallFilter_def FilterSystem_GetFilterLogs_def
  FilterSystem_GetFilterChanges_def loadFilterContext_def loadOrNewFnProxy_def getFilterContext_def
  newProxyStub_def NodeName_def beforeHardfork_def Let_def
  fromBlockSkips_def toBlockSkips_def addressSkips_def topicSkips_def

lemmas input_defs =
  E0_def api0_def fs0_def stub0_def fBlock_def fLog_def fLogOld_def query0_def queryOld_def
  logA150_def logB151_def logA50_def apiR_def fPending_def fsOld_def NewFilterSystem_def

section \<open>The sticky delegate rule\<close>














text \<open>
  How the three operations run on an installed record. The client lookup reads and writes
  the clients and the call log only, so its outcome on the facade as it stands when the
  operation gets there is the one on the facade the operation started from.
\<close>

lemma loadOrGetFnClient_transfer:
  assumes "loadOrGetFnClient E a u = (r, a')" and "clients b = clients a" and "calls b = calls a"
  shows "loadOrGetFnClient E b u = (r, b\<lparr>clients := clients a', calls := calls a'\<rparr>)"
  using assms
  by (cases "clients a (Url2NodeName E u)"; cases "NewEthClient E (calls a) u")
     (auto simp: loadOrGetFnClient_def Let_def)


lemma loadOrGetFnClient_calls:
  assumes "loadOrGetFnClient E a u = (r, a')"
  shows "calls a' = calls a \<or> calls a' = calls a @ [CallNewEthClient u]"
  using assms
  by (cases "clients a (Url2NodeName E u)"; cases "NewEthClient E (calls a) u")
     (auto simp: loadOrGetFnClient_def Let_def)

lemma uninstallDelegate_fullNode:
  "sys a = None \<or> ftyp f \<noteq> FilterTypeLog \<Longrightarrow>
     uninstallDelegate E a c f =
       (fnUninstallFilter E (calls a) (URL c) (fid (del f)),
        a\<lparr>calls := calls a @ [CallUninstallFilter (URL c) (fid (del f))]\<rparr>)"
  by (auto simp: uninstallDelegate_def Let_def split: option.splits)

lemma uninstallDelegate_system:
  "sys a = Some fs \<Longrightarrow> ftyp f = FilterTypeLog \<Longrightarrow>
     fst (uninstallDelegate E a c f) = fst (FilterSystem_UninstallFilter E fs (calls a) (fid (del f)))
   \<and> calls (snd (uninstallDelegate E a c f))
       = snd (snd (FilterSystem_UninstallFilter E fs (calls a) (fid (del f))))
   \<and> sys (snd (uninstallDelegate E a c f))
       = Some (fst (snd (FilterSystem_UninstallFilter E fs (calls a) (fid (del f)))))
   \<and> infos (snd (uninstallDelegate E a c f)) = infos a"
  by (simp add: uninstallDelegate_def split: prod.splits)

lemma UninstallFilter_run:
  assumes "filters api i = Some f"
    and "loadOrGetFnClient E api (nodeUrl (del f)) = (r, apiC)"
  shows "\<exists>a2. sys a2 = sys api \<and> calls a2 = calls apiC
            \<and> infos a2 = infos (snd (useDelegateFullNode ''UninstallFilter'' api i f url))
            \<and> FilterApi_UninstallFilter E api url i =
                (case r of Inl err \<Rightarrow> ((False, Some (filterProxyError E err)), a2)
                         | Inr c \<Rightarrow> uninstallDelegate E a2 c f)"
proof -
  let ?a1 = "api\<lparr>filters := (filters api)(i := None)\<rparr>"
  obtain a1' where ud: "useDelegateFullNode ''UninstallFilter'' ?a1 i f url = (nodeUrl (del f), a1')"
    and fr: "clients a1' = clients api" "calls a1' = calls api" "sys a1' = sys api"
            "infos a1' = infos (snd (useDelegateFullNode ''UninstallFilter'' api i f url))"
    by (cases "url = nodeUrl (del f)") (simp_all add: useDelegateFullNode_def IsDelegateFullNode_def)
  note lc = loadOrGetFnClient_transfer [OF assms(2) fr(1) fr(2)]
  let ?a2 = "a1'\<lparr>clients := clients apiC, calls := calls apiC\<rparr>"
  have "FilterApi_UninstallFilter E api url i =
                (case r of Inl err \<Rightarrow> ((False, Some (filterProxyError E err)), ?a2)
                         | Inr c \<Rightarrow> uninstallDelegate E ?a2 c f)"
    using assms(1) ud lc by (simp add: FilterApi_UninstallFilter_def delFilter_def split: sum.splits)
  moreover have "sys ?a2 = sys api" "calls ?a2 = calls apiC"
    "infos ?a2 = infos (snd (useDelegateFullNode ''UninstallFilter'' api i f url))"
    using fr by simp_all
  ultimately show ?thesis by blast
qed












section \<open>The type of a new log filter\<close>

lemma NewFilter_record_type:
  assumes "FilterApi_NewFilter E now api url q = ((pfid, None), api')"
  shows "map_option ftyp (filters api' pfid) = Some FilterTypePendingTxn"
  using assms
  by (auto simp: FilterApi_NewFilter_def addFilter_def newFilter_def Let_def
           split: prod.splits sum.splits)

lemma NewFilter_then_GetFilterLogs:
  assumes "FilterApi_NewFilter E now api url q = ((pfid, None), api')"
  shows "FilterApi_GetFilterLogs E api' url' pfid = ((None, Some errFilterNotFound), api')"
proof -
  from NewFilter_record_type [OF assms] obtain f where
    "filters api' pfid = Some f" "ftyp f = FilterTypePendingTxn" by auto
  then show ?thesis by (simp add: FilterApi_GetFilterLogs_def getFilter_def)
qed

text \<open>
  C2. The record that \<^verbatim>\<open>NewFilter\<close> stores for a new log filter has the type
  \<^verbatim>\<open>FilterTypePendingTxn\<close>, not \<^verbatim>\<open>FilterTypeLog\<close>: on a fresh facade, a log
  filter created on node N1 with the query of scenario S1 gets the id 0xa1, and the record
  under that id is a pending transaction filter.
\<close>

theorem NewFilter_stores_PendingTxn:
  "fst (FilterApi_NewFilter E0 0 (NewFilterApi (Some NewFilterSystem)) ''N1'' query0) = (''0xa1'', None)
   \<and> map_option ftyp (filters (snd (FilterApi_NewFilter E0 0 (NewFilterApi (Some NewFilterSystem)) ''N1'' query0)) ''0xa1'')
       = Some FilterTypePendingTxn"
  by (simp add: facade_defs system_defs input_defs NewFilterSystem_def)

text \<open>
  C3. \<^verbatim>\<open>GetFilterLogs\<close> on the id of a log filter that \<^verbatim>\<open>NewFilter\<close> has just
  installed fails with \<^verbatim>\<open>errFilterNotFound\<close> and returns no logs: the type check of
  \<^verbatim>\<open>GetFilterLogs\<close> rejects the record, which is not of type \<^verbatim>\<open>FilterTypeLog\<close>.
\<close>

theorem GetFilterLogs_after_NewFilter_not_found:
  "fst (FilterApi_NewFilter E0 0 (NewFilterApi (Some NewFilterSystem)) ''N1'' query0) = (''0xa1'', None)
   \<and> fst (FilterApi_GetFilterLogs E0
             (snd (FilterApi_NewFilter E0 0 (NewFilterApi (Some NewFilterSystem)) ''N1'' query0))
             ''N1'' ''0xa1'')
       = (None, Some errFilterNotFound)"
  by (simp add: facade_defs system_defs input_defs NewFilterSystem_def)

section \<open>Uninstalling twice\<close>

lemma loadOrGetFnClient_filters [simp]: "filters (snd (loadOrGetFnClient E a u)) = filters a"
  by (simp add: loadOrGetFnClient_def Let_def split: option.splits)

lemma uninstallDelegate_filters [simp]: "filters (snd (uninstallDelegate E a c f)) = filters a"
  by (simp add: uninstallDelegate_def Let_def split: option.splits prod.splits)

lemma delegateFilterLogs_filters [simp]: "filters (snd (delegateFilterLogs E a c f)) = filters a"
  by (simp add: delegateFilterLogs_def Let_def split: option.splits prod.splits)

lemma delegateFilterChanges_filters [simp]: "filters (snd (delegateFilterChanges E a c f)) = filters a"
  by (simp add: delegateFilterChanges_def Let_def split: option.splits prod.splits)

lemma useDelegateFullNode_filters [simp]: "filters (snd (useDelegateFullNode n a i f u)) = filters a"
  by (simp add: useDelegateFullNode_def)

lemma useDelegateFullNode_url [simp]: "fst (useDelegateFullNode n a i f u) = nodeUrl (del f)"
  by (simp add: useDelegateFullNode_def IsDelegateFullNode_def)

lemma UninstallFilter_absent:
  "filters api j = None \<Longrightarrow> FilterApi_UninstallFilter E api url j = ((False, None), api)"
  by (simp add: FilterApi_UninstallFilter_def delFilter_def)

lemma UninstallFilter_removes:
  "filters (snd (FilterApi_UninstallFilter E api url i)) i = None"
proof (cases "filters api i")
  case None
  then show ?thesis by (simp add: UninstallFilter_absent)
next
  case (Some f)
  obtain u a2 where ud: "useDelegateFullNode ''UninstallFilter'' (api\<lparr>filters := (filters api)(i := None)\<rparr>) i f url = (u, a2)"
    by (cases "useDelegateFullNode ''UninstallFilter'' (api\<lparr>filters := (filters api)(i := None)\<rparr>) i f url")
  obtain r a3 where lc: "loadOrGetFnClient E a2 u = (r, a3)" by (cases "loadOrGetFnClient E a2 u")
  have f2: "filters a2 i = None"
    using useDelegateFullNode_filters [of "''UninstallFilter''" "api\<lparr>filters := (filters api)(i := None)\<rparr>" i f url] ud
    by simp
  have f3: "filters a3 i = None"
    using loadOrGetFnClient_filters [of E a2 u] lc f2 by simp
  show ?thesis
  proof (cases r)
    case (Inl err)
    with Some ud lc f3 show ?thesis
      by (simp add: FilterApi_UninstallFilter_def delFilter_def)
  next
    case (Inr c)
    with Some ud lc f3 show ?thesis
      by (simp add: FilterApi_UninstallFilter_def delFilter_def)
  qed
qed

text \<open>
  C6, as stated, fails: the first \<^verbatim>\<open>UninstallFilter\<close> on an installed id returns
  what the delegate returns, and a full node that no longer knows the filter answers
  false. Here it is the block filter of the facade, uninstalled when node N1 has
  dropped it.
\<close>

theorem UninstallFilter_first_call_false:
  "filters apiR ''0xa1'' = Some fBlock
   \<and> fst (FilterApi_UninstallFilter E1 apiR ''N1'' ''0xa1'') = (False, None)"
  by (simp add: facade_defs system_defs input_defs E1_def)

text \<open>
  C6, amended. For an installed filter id, the first \<^verbatim>\<open>UninstallFilter\<close> removes
  the record and returns the answer of the delegate uninstall, by the path the type of
  the record selects. With \<open>r\<close> the outcome of the client lookup for the delegate's URL
  and \<open>apiC\<close> the facade after it: without a client the result is false with the proxy
  error; for a record of type log on a facade with a filter system it is the answer of the
  proxy stub that holds the delegate filter, with no error, and false if the filter
  system holds no such filter; otherwise it is the answer and the error of the full
  node's \<^verbatim>\<open>UninstallFilter\<close>, called through that client with the delegate filter id.
  So the first call returns true exactly when the delegate answers true. A second call
  returns false and changes nothing, so it issues no upstream call. On an absent id
  \<^verbatim>\<open>UninstallFilter\<close> returns false and changes nothing.
\<close>

theorem UninstallFilter_twice:
  assumes "filters api i = Some f"
    and "loadOrGetFnClient E api (nodeUrl (del f)) = (r, apiC)"
  shows "filters (snd (FilterApi_UninstallFilter E api url i)) i = None
     \<and> FilterApi_UninstallFilter E (snd (FilterApi_UninstallFilter E api url i)) url2 i
         = ((False, None), snd (FilterApi_UninstallFilter E api url i))
     \<and> (\<forall>err. r = Inl err \<longrightarrow>
            fst (FilterApi_UninstallFilter E api url i) = (False, Some (filterProxyError E err))
          \<and> calls (snd (FilterApi_UninstallFilter E api url i)) = calls apiC)
     \<and> (\<forall>c. r = Inr c \<and> (sys api = None \<or> ftyp f \<noteq> FilterTypeLog) \<longrightarrow>
            fst (FilterApi_UninstallFilter E api url i)
              = fnUninstallFilter E (calls apiC) (URL c) (fid (del f))
          \<and> calls (snd (FilterApi_UninstallFilter E api url i))
              = calls apiC @ [CallUninstallFilter (URL c) (fid (del f))])
     \<and> (\<forall>c fs p. r = Inr c \<and> sys api = Some fs \<and> ftyp f = FilterTypeLog
                  \<and> filterProxies fs (fid (del f)) = Some p \<longrightarrow>
            fst (FilterApi_UninstallFilter E api url i)
              = (fst (stubUninstallFilter E (calls apiC @ [SysUninstallFilter (fid (del f))])
                        (heap fs p) (fid (del f))), None)
          \<and> calls (snd (FilterApi_UninstallFilter E api url i))
              = calls apiC @ [SysUninstallFilter (fid (del f)), StubUninstallFilter p (fid (del f))])
     \<and> (\<forall>c fs. r = Inr c \<and> sys api = Some fs \<and> ftyp f = FilterTypeLog
                \<and> filterProxies fs (fid (del f)) = None \<longrightarrow>
            fst (FilterApi_UninstallFilter E api url i) = (False, None)
          \<and> calls (snd (FilterApi_UninstallFilter E api url i))
              = calls apiC @ [SysUninstallFilter (fid (del f))])
     \<and> (calls apiC = calls api \<or> calls apiC = calls api @ [CallNewEthClient (nodeUrl (del f))])
     \<and> (\<forall>j. filters api j = None \<longrightarrow> FilterApi_UninstallFilter E api url j = ((False, None), api))"
proof -
  let ?U = "FilterApi_UninstallFilter E api url i"
  let ?d = "fid (del f)"
  note rm = UninstallFilter_removes [of E api url i]
  from rm have s: "FilterApi_UninstallFilter E (snd ?U) url2 i = ((False, None), snd ?U)"
    by (rule UninstallFilter_absent)
  from UninstallFilter_run [OF assms, of url] obtain a2 where
    a2: "sys a2 = sys api" "calls a2 = calls apiC"
    and run: "?U = (case r of Inl err \<Rightarrow> ((False, Some (filterProxyError E err)), a2)
                            | Inr c \<Rightarrow> uninstallDelegate E a2 c f)"
    by blast
  have e: "\<forall>err. r = Inl err \<longrightarrow>
            fst ?U = (False, Some (filterProxyError E err)) \<and> calls (snd ?U) = calls apiC"
    using run a2 by simp
  have n: "\<forall>c. r = Inr c \<and> (sys api = None \<or> ftyp f \<noteq> FilterTypeLog) \<longrightarrow>
            fst ?U = fnUninstallFilter E (calls apiC) (URL c) ?d
          \<and> calls (snd ?U) = calls apiC @ [CallUninstallFilter (URL c) ?d]"
  proof (intro allI impI)
    fix c assume h: "r = Inr c \<and> (sys api = None \<or> ftyp f \<noteq> FilterTypeLog)"
    then have "sys a2 = None \<or> ftyp f \<noteq> FilterTypeLog" using a2 by simp
    from uninstallDelegate_fullNode [OF this, of E c] run h a2
    show "fst ?U = fnUninstallFilter E (calls apiC) (URL c) ?d
          \<and> calls (snd ?U) = calls apiC @ [CallUninstallFilter (URL c) ?d]"
      by simp
  qed
  have sy: "fst ?U = fst (FilterSystem_UninstallFilter E fs (calls apiC) ?d)
          \<and> calls (snd ?U) = snd (snd (FilterSystem_UninstallFilter E fs (calls apiC) ?d))"
    if h: "r = Inr c" "sys api = Some fs" "ftyp f = FilterTypeLog" for c fs
  proof -
    from h a2 have "sys a2 = Some fs" by simp
    from uninstallDelegate_system [OF this h(3), of E c] run h(1) a2 show ?thesis by simp
  qed
  have p: "\<forall>c fs p. r = Inr c \<and> sys api = Some fs \<and> ftyp f = FilterTypeLog
                  \<and> filterProxies fs ?d = Some p \<longrightarrow>
            fst ?U = (fst (stubUninstallFilter E (calls apiC @ [SysUninstallFilter ?d]) (heap fs p) ?d), None)
          \<and> calls (snd ?U) = calls apiC @ [SysUninstallFilter ?d, StubUninstallFilter p ?d]"
  proof (intro allI impI)
    fix c fs p
    assume h: "r = Inr c \<and> sys api = Some fs \<and> ftyp f = FilterTypeLog \<and> filterProxies fs ?d = Some p"
    with sy [of c fs] show "fst ?U = (fst (stubUninstallFilter E (calls apiC @ [SysUninstallFilter ?d]) (heap fs p) ?d), None)
          \<and> calls (snd ?U) = calls apiC @ [SysUninstallFilter ?d, StubUninstallFilter p ?d]"
      by (simp add: FilterSystem_UninstallFilter_def Let_def split: prod.splits)
  qed
  have q: "\<forall>c fs. r = Inr c \<and> sys api = Some fs \<and> ftyp f = FilterTypeLog
                \<and> filterProxies fs ?d = None \<longrightarrow>
            fst ?U = (False, None) \<and> calls (snd ?U) = calls apiC @ [SysUninstallFilter ?d]"
  proof (intro allI impI)
    fix c fs
    assume h: "r = Inr c \<and> sys api = Some fs \<and> ftyp f = FilterTypeLog \<and> filterProxies fs ?d = None"
    with sy [of c fs] show "fst ?U = (False, None) \<and> calls (snd ?U) = calls apiC @ [SysUninstallFilter ?d]"
      by (simp add: FilterSystem_UninstallFilter_def Let_def)
  qed
  note k = loadOrGetFnClient_calls [OF assms(2)]
  have a: "\<forall>j. filters api j = None \<longrightarrow> FilterApi_UninstallFilter E api url j = ((False, None), api)"
    by (simp add: UninstallFilter_absent)
  from rm s e n p q k a show ?thesis by blast
qed

text \<open>
  The block filter of the facade is uninstalled on its full node N1, which answers true;
  the second call and a call on an unknown id return false and leave the state, and with
  it the call log, as it is. A record of type log is uninstalled in the filter system, at
  the proxy stub. When no client can be made for N1, the first call returns false with
  the proxy error.
\<close>

theorem UninstallFilter_twice_witness:
  "filters apiR ''0xa1'' = Some fBlock
   \<and> loadOrGetFnClient E0 apiR (nodeUrl (del fBlock)) = (Inr \<lparr>URL = ''N1''\<rparr>, apiR)
   \<and> fst (FilterApi_UninstallFilter E0 apiR ''N2'' ''0xa1'') = fnUninstallFilter E0 (calls apiR) ''N1'' ''0xb1''
   \<and> fst (FilterApi_UninstallFilter E0 apiR ''N2'' ''0xa1'') = (True, None)
   \<and> calls (snd (FilterApi_UninstallFilter E0 apiR ''N2'' ''0xa1''))
       = calls apiR @ [CallUninstallFilter ''N1'' ''0xb1'']
   \<and> filters (snd (FilterApi_UninstallFilter E0 apiR ''N2'' ''0xa1'')) ''0xa1'' = None
   \<and> FilterApi_UninstallFilter E0 (snd (FilterApi_UninstallFilter E0 apiR ''N2'' ''0xa1'')) ''N2'' ''0xa1''
       = ((False, None), snd (FilterApi_UninstallFilter E0 apiR ''N2'' ''0xa1''))
   \<and> filters apiR ''0xff'' = None
   \<and> FilterApi_UninstallFilter E0 apiR ''N2'' ''0xff'' = ((False, None), apiR)
   \<and> filters api0 ''0xa2'' = Some fLog
   \<and> loadOrGetFnClient E0 api0 (nodeUrl (del fLog)) = (Inr \<lparr>URL = ''N1''\<rparr>, api0)
   \<and> sys api0 = Some fs0 \<and> ftyp fLog = FilterTypeLog \<and> filterProxies fs0 (fid (del fLog)) = Some 0
   \<and> fst (FilterApi_UninstallFilter E0 api0 ''N1'' ''0xa2'') = (True, None)
   \<and> calls (snd (FilterApi_UninstallFilter E0 api0 ''N1'' ''0xa2''))
       = [SysUninstallFilter ''0xd1'', StubUninstallFilter 0 ''0xd1'']
   \<and> loadOrGetFnClient E3 (apiR\<lparr>clients := Map.empty\<rparr>) (nodeUrl (del fBlock))
       = (Inl (ErrMessage ''dial failed''),
          apiR\<lparr>clients := Map.empty, calls := calls apiR @ [CallNewEthClient ''N1'']\<rparr>)
   \<and> fst (FilterApi_UninstallFilter E3 (apiR\<lparr>clients := Map.empty\<rparr>) ''N1'' ''0xa1'')
       = (False, Some (WithMessage (ErrMessage ''dial failed'') ''filter proxy error''))
   \<and> calls (snd (FilterApi_UninstallFilter E3 (apiR\<lparr>clients := Map.empty\<rparr>) ''N1'' ''0xa1''))
       = calls apiR @ [CallNewEthClient ''N1'']"
proof -
  have a: "filters apiR ''0xa1'' = Some fBlock"
    by (simp add: facade_defs system_defs input_defs)
  have l: "loadOrGetFnClient E0 apiR (nodeUrl (del fBlock)) = (Inr \<lparr>URL = ''N1''\<rparr>, apiR)"
    by (simp add: facade_defs system_defs input_defs)
  have b: "filters apiR ''0xff'' = None"
    by (simp add: facade_defs system_defs input_defs)
  have x: "sys apiR \<noteq> None" "ftyp fBlock \<noteq> FilterTypeLog" "fid (del fBlock) = ''0xb1''"
    "fnUninstallFilter E0 (calls apiR) ''N1'' ''0xb1'' = (True, None)"
    by (simp_all add: facade_defs system_defs input_defs)
  have a0: "filters api0 ''0xa2'' = Some fLog" by (simp add: api0_def)
  have l0: "loadOrGetFnClient E0 api0 (nodeUrl (del fLog)) = (Inr \<lparr>URL = ''N1''\<rparr>, api0)"
    by (simp add: facade_defs input_defs Let_def)
  have x0: "sys api0 = Some fs0" "ftyp fLog = FilterTypeLog" "filterProxies fs0 (fid (del fLog)) = Some 0"
    "fid (del fLog) = ''0xd1''" "calls api0 = []"
    "fst (stubUninstallFilter E0 [SysUninstallFilter ''0xd1''] (heap fs0 0) ''0xd1'')"
    by (simp_all add: input_defs)
  have a3: "filters (apiR\<lparr>clients := Map.empty\<rparr>) ''0xa1'' = Some fBlock"
    by (simp add: facade_defs system_defs input_defs)
  have l3: "loadOrGetFnClient E3 (apiR\<lparr>clients := Map.empty\<rparr>) (nodeUrl (del fBlock))
       = (Inl (ErrMessage ''dial failed''),
          apiR\<lparr>clients := Map.empty, calls := calls apiR @ [CallNewEthClient ''N1'']\<rparr>)"
    by (simp add: facade_defs system_defs input_defs E3_def)
  have x3: "filterProxyError E3 (ErrMessage ''dial failed'')
              = WithMessage (ErrMessage ''dial failed'') ''filter proxy error''"
    by (simp add: E3_def E0_def)
  have u: "nodeUrl (del fBlock) = ''N1''" "nodeUrl (del fLog) = ''N1''"
    by (simp_all add: input_defs)
  from UninstallFilter_twice [OF a l, of "''N2''" "''N2''"] b x
  have r1: "fst (FilterApi_UninstallFilter E0 apiR ''N2'' ''0xa1'') = fnUninstallFilter E0 (calls apiR) ''N1'' ''0xb1''"
    "fst (FilterApi_UninstallFilter E0 apiR ''N2'' ''0xa1'') = (True, None)"
    "calls (snd (FilterApi_UninstallFilter E0 apiR ''N2'' ''0xa1''))
       = calls apiR @ [CallUninstallFilter ''N1'' ''0xb1'']"
    "filters (snd (FilterApi_UninstallFilter E0 apiR ''N2'' ''0xa1'')) ''0xa1'' = None"
    "FilterApi_UninstallFilter E0 (snd (FilterApi_UninstallFilter E0 apiR ''N2'' ''0xa1'')) ''N2'' ''0xa1''
       = ((False, None), snd (FilterApi_UninstallFilter E0 apiR ''N2'' ''0xa1''))"
    "FilterApi_UninstallFilter E0 apiR ''N2'' ''0xff'' = ((False, None), apiR)"
    by (simp_all add: u)
  from UninstallFilter_twice [OF a0 l0, of "''N1''" "''N1''"] x0
  have r2: "fst (FilterApi_UninstallFilter E0 api0 ''N1'' ''0xa2'') = (True, None)"
    "calls (snd (FilterApi_UninstallFilter E0 api0 ''N1'' ''0xa2''))
       = [SysUninstallFilter ''0xd1'', StubUninstallFilter 0 ''0xd1'']"
    by (simp_all add: u)
  from UninstallFilter_twice [OF a3 l3, of "''N1''" "''N1''"] x3
  have r3: "fst (FilterApi_UninstallFilter E3 (apiR\<lparr>clients := Map.empty\<rparr>) ''N1'' ''0xa1'')
       = (False, Some (WithMessage (ErrMessage ''dial failed'') ''filter proxy error''))"
    "calls (snd (FilterApi_UninstallFilter E3 (apiR\<lparr>clients := Map.empty\<rparr>) ''N1'' ''0xa1''))
       = calls apiR @ [CallNewEthClient ''N1'']"
    by (simp_all add: u)
  show ?thesis
    using a l b a0 l0 x0(1,2,3) l3 r1 r2 r3 by (simp only: simp_thms)
qed


section \<open>Filters the upstream has lost\<close>


lemma useDelegateFullNode_frame:
  "clients (snd (useDelegateFullNode n a i f u)) = clients a"
  "calls (snd (useDelegateFullNode n a i f u)) = calls a"
  "sys (snd (useDelegateFullNode n a i f u)) = sys a"
  by (simp_all add: useDelegateFullNode_def)

lemma refreshFilterPollingTime_frame:
  "clients (refreshFilterPollingTime now a i) = clients a"
  "calls (refreshFilterPollingTime now a i) = calls a"
  "sys (refreshFilterPollingTime now a i) = sys a"
  by (simp_all add: refreshFilterPollingTime_def split: option.splits)









section \<open>The reaper\<close>

lemma sdiv_two_nonpos: "((x::int) sdiv 2 \<le> 0) = (x < 2)"
  by (auto simp: signed_divide_int_def sgn_if abs_if) 

lemma Since_test:
  fixes ttl :: "64 word"
  assumes "2 \<le> sint ttl"
  shows "(Since now (lastPollingTime f) < sint ttl) = (\<not> expired ttl now f)"
proof -
  have "sint ttl < 2 ^ (LENGTH(64) - 1)" by (rule sint_lt)
  then have "sint ttl \<le> 2 ^ 63 - 1" by simp
  with assms show ?thesis
    by (auto simp: Since_def expired_def max_def min_def)
qed

lemma map_filter_cong_set:
  "(\<And>x. x \<in> set xs \<Longrightarrow> f x = g x) \<Longrightarrow> List.map_filter f xs = List.map_filter g xs"
  by (induction xs) (auto simp: List.map_filter_simps split: option.splits)

lemma cascaded_cong: "filters a i = filters b i \<Longrightarrow> cascaded ttl now a i = cascaded ttl now b i"
  by (simp add: cascaded_def)

lemma FilterSystem_UninstallFilter_calls:
  "\<exists>extra. snd (snd (FilterSystem_UninstallFilter E fs cs d)) = cs @ SysUninstallFilter d # extra
           \<and> filter isSysUninstallFilter extra = []"
  by (simp add: FilterSystem_UninstallFilter_def Let_def split: option.splits prod.splits)

lemma expireFilters_run:
  fixes ttl :: "64 word"
  assumes "2 \<le> sint ttl" and "distinct ids"
    and "sys api \<noteq> None \<or>
         (\<forall>i \<in> set ids. \<forall>f. filters api i = Some f \<and> expired ttl now f \<longrightarrow> ftyp f \<noteq> FilterTypeLog)"
  shows "\<exists>api'. expireFilters E ttl now ids api = Some api'
      \<and> filters api' =
          (\<lambda>i. if i \<in> set ids
                then (case filters api i of
                        None \<Rightarrow> None
                      | Some f \<Rightarrow> if expired ttl now f then None else Some f)
                else filters api i)
      \<and> (\<exists>new. calls api' = calls api @ new
             \<and> filter isSysUninstallFilter new = List.map_filter (cascaded ttl now api) ids)"
  using assms(2,3)
proof (induction ids arbitrary: api)
  case Nil
  then show ?case by (simp add: List.map_filter_simps)
next
  case (Cons i ids)
  from Cons.prems have d: "distinct ids" and ni: "i \<notin> set ids" by simp_all
  note test = Since_test [OF assms(1), of now]
  show ?case
  proof (cases "filters api i")
    case None
    from Cons.prems(2) have "sys api \<noteq> None \<or>
         (\<forall>j \<in> set ids. \<forall>f. filters api j = Some f \<and> expired ttl now f \<longrightarrow> ftyp f \<noteq> FilterTypeLog)"
      by auto
    from Cons.IH [OF d this] obtain api' new where
      r: "expireFilters E ttl now ids api = Some api'" and
      f: "filters api' =
          (\<lambda>j. if j \<in> set ids
                then (case filters api j of
                        None \<Rightarrow> None
                      | Some f \<Rightarrow> if expired ttl now f then None else Some f)
                else filters api j)" and
      c: "calls api' = calls api @ new"
         "filter isSysUninstallFilter new = List.map_filter (cascaded ttl now api) ids"
      by blast
    have "expireFilters E ttl now (i # ids) api = Some api'" using None r by simp
    moreover have "filters api' =
          (\<lambda>j. if j \<in> set (i # ids)
                then (case filters api j of
                        None \<Rightarrow> None
                      | Some f \<Rightarrow> if expired ttl now f then None else Some f)
                else filters api j)"
      using f None by (auto simp: fun_eq_iff)
    moreover have "filter isSysUninstallFilter new = List.map_filter (cascaded ttl now api) (i # ids)"
      using c(2) None by (simp add: List.map_filter_simps cascaded_def)
    ultimately show ?thesis using c(1) by blast
  next
    case (Some f)
    show ?thesis
    proof (cases "expired ttl now f")
      case False
      from Cons.prems(2) have "sys api \<noteq> None \<or>
           (\<forall>j \<in> set ids. \<forall>f. filters api j = Some f \<and> expired ttl now f \<longrightarrow> ftyp f \<noteq> FilterTypeLog)"
        by auto
      from Cons.IH [OF d this] obtain api' new where
        r: "expireFilters E ttl now ids api = Some api'" and
        f: "filters api' =
            (\<lambda>j. if j \<in> set ids
                  then (case filters api j of
                          None \<Rightarrow> None
                        | Some f \<Rightarrow> if expired ttl now f then None else Some f)
                  else filters api j)" and
        c: "calls api' = calls api @ new"
           "filter isSysUninstallFilter new = List.map_filter (cascaded ttl now api) ids"
        by blast
      have "expireFilters E ttl now (i # ids) api = Some api'"
        using Some False r by (simp add: test)
      moreover have "filters api' =
            (\<lambda>j. if j \<in> set (i # ids)
                  then (case filters api j of
                          None \<Rightarrow> None
                        | Some f \<Rightarrow> if expired ttl now f then None else Some f)
                  else filters api j)"
        using f Some False ni by (auto simp: fun_eq_iff)
      moreover have "filter isSysUninstallFilter new = List.map_filter (cascaded ttl now api) (i # ids)"
        using c(2) Some False by (simp add: List.map_filter_simps cascaded_def)
      ultimately show ?thesis using c(1) by blast
    next
      case True
      let ?a1 = "api\<lparr>filters := (filters api)(i := None)\<rparr>"
      have same: "\<And>j. j \<in> set ids \<Longrightarrow> filters ?a1 j = filters api j"
        using ni by auto
      show ?thesis
      proof (cases "ftyp f = FilterTypeLog")
        case False
        have "sys ?a1 \<noteq> None \<or>
           (\<forall>j \<in> set ids. \<forall>f. filters ?a1 j = Some f \<and> expired ttl now f \<longrightarrow> ftyp f \<noteq> FilterTypeLog)"
          using Cons.prems(2) ni by auto
        from Cons.IH [OF d this] obtain api' new where
          r: "expireFilters E ttl now ids ?a1 = Some api'" and
          f: "filters api' =
              (\<lambda>j. if j \<in> set ids
                    then (case filters ?a1 j of
                            None \<Rightarrow> None
                          | Some f \<Rightarrow> if expired ttl now f then None else Some f)
                    else filters ?a1 j)" and
          c: "calls api' = calls ?a1 @ new"
             "filter isSysUninstallFilter new = List.map_filter (cascaded ttl now ?a1) ids"
          by blast
        have "expireFilters E ttl now (i # ids) api = Some api'"
          using Some True False r by (simp add: test)
        moreover have "filters api' =
              (\<lambda>j. if j \<in> set (i # ids)
                    then (case filters api j of
                            None \<Rightarrow> None
                          | Some f \<Rightarrow> if expired ttl now f then None else Some f)
                    else filters api j)"
          using f Some True ni by (auto simp: fun_eq_iff)
        moreover have "List.map_filter (cascaded ttl now ?a1) ids = List.map_filter (cascaded ttl now api) ids"
          by (rule map_filter_cong_set) (rule cascaded_cong, rule same)
        then have "filter isSysUninstallFilter new = List.map_filter (cascaded ttl now api) (i # ids)"
          using c(2) Some False by (simp add: List.map_filter_simps cascaded_def)
        ultimately show ?thesis using c(1) by auto
      next
        case Log: True
        from Cons.prems(2) Some True Log obtain fs where fs: "sys api = Some fs" by auto
        obtain r fs' cs' where u: "FilterSystem_UninstallFilter E fs (calls api) (fid (del f)) = (r, fs', cs')"
          by (cases "FilterSystem_UninstallFilter E fs (calls api) (fid (del f))") auto
        from FilterSystem_UninstallFilter_calls [of E fs "calls api" "fid (del f)"] u
        obtain extra where ex: "cs' = calls api @ SysUninstallFilter (fid (del f)) # extra"
            "filter isSysUninstallFilter extra = []" by auto
        let ?a2 = "?a1\<lparr>sys := Some fs', calls := cs'\<rparr>"
        have "sys ?a2 \<noteq> None \<or>
           (\<forall>j \<in> set ids. \<forall>f. filters ?a2 j = Some f \<and> expired ttl now f \<longrightarrow> ftyp f \<noteq> FilterTypeLog)"
          by simp
        from Cons.IH [OF d this] obtain api' new where
          r: "expireFilters E ttl now ids ?a2 = Some api'" and
          f: "filters api' =
              (\<lambda>j. if j \<in> set ids
                    then (case filters ?a2 j of
                            None \<Rightarrow> None
                          | Some f \<Rightarrow> if expired ttl now f then None else Some f)
                    else filters ?a2 j)" and
          c: "calls api' = calls ?a2 @ new"
             "filter isSysUninstallFilter new = List.map_filter (cascaded ttl now ?a2) ids"
          by blast
        have "expireFilters E ttl now (i # ids) api = Some api'"
          using Some True Log fs u r by (simp add: test)
        moreover have "filters api' =
              (\<lambda>j. if j \<in> set (i # ids)
                    then (case filters api j of
                            None \<Rightarrow> None
                          | Some f \<Rightarrow> if expired ttl now f then None else Some f)
                    else filters api j)"
          using f Some True ni by (auto simp: fun_eq_iff)
        moreover have "List.map_filter (cascaded ttl now ?a2) ids = List.map_filter (cascaded ttl now api) ids"
          by (rule map_filter_cong_set) (rule cascaded_cong, use ni in auto)
        then have "filter isSysUninstallFilter (SysUninstallFilter (fid (del f)) # extra @ new)
                     = List.map_filter (cascaded ttl now api) (i # ids)"
          using c(2) Some True Log ex(2) by (simp add: List.map_filter_simps cascaded_def)
        moreover have "calls api' = calls api @ (SysUninstallFilter (fid (del f)) # extra @ new)"
          using c(1) ex(1) by simp
        ultimately show ?thesis by blast
      qed
    qed
  qed
qed

lemma length_map_filter_card:
  assumes "distinct xs"
  shows "length (List.map_filter f xs) = card {x \<in> set xs. f x \<noteq> None}"
proof -
  have "length (List.map_filter f xs) = length (filter (\<lambda>x. f x \<noteq> None) xs)"
    by (simp add: List.map_filter_def)
  also have "\<dots> = card (set (filter (\<lambda>x. f x \<noteq> None) xs))"
    using assms distinct_card [of "filter (\<lambda>x. f x \<noteq> None) xs"] by simp
  also have "set (filter (\<lambda>x. f x \<noteq> None) xs) = {x \<in> set xs. f x \<noteq> None}"
    by auto
  finally show ?thesis .
qed

text \<open>
  One tick of the reaper, with a period that lets the ticker run (\<open>ttl\<close> of at least
  two nanoseconds) and a filter system at hand wherever an idle record of type log needs
  one, returns. Every record whose idle time \<open>now - lastPollingTime\<close> is at least
  \<open>ttl\<close> is removed; every record idle for less is left as it was; nothing is added.
  The calls to \<^verbatim>\<open>FilterSystem.UninstallFilter\<close> made by the tick are, in the order of
  the iteration, one for each removed record of type log, with the id of its delegate
  filter: as many as there are such records, and none for the other records.
\<close>

theorem reaper_removes_idle_filters:
  fixes ttl :: "64 word"
  assumes "2 \<le> sint ttl" and "distinct ids" and "set ids = dom (filters api)"
    and "sys api \<noteq> None \<or>
         (\<forall>i f. filters api i = Some f \<and> sint ttl \<le> now - lastPollingTime f \<longrightarrow> ftyp f \<noteq> FilterTypeLog)"
  shows "\<exists>api'. timeoutLoop_tick E ttl now ids api = Some api'
     \<and> (\<forall>i f. filters api i = Some f \<and> sint ttl \<le> now - lastPollingTime f \<longrightarrow> filters api' i = None)
     \<and> (\<forall>i f. filters api i = Some f \<and> now - lastPollingTime f < sint ttl \<longrightarrow> filters api' i = Some f)
     \<and> (\<forall>i. filters api i = None \<longrightarrow> filters api' i = None)
     \<and> (\<exists>new. calls api' = calls api @ new
            \<and> filter isSysUninstallFilter new = List.map_filter (cascaded ttl now api) ids)
     \<and> length (List.map_filter (cascaded ttl now api) ids)
         = card {i. \<exists>f. filters api i = Some f \<and> sint ttl \<le> now - lastPollingTime f
                         \<and> ftyp f = FilterTypeLog}"
proof -
  have pre: "sys api \<noteq> None \<or>
         (\<forall>i \<in> set ids. \<forall>f. filters api i = Some f \<and> expired ttl now f \<longrightarrow> ftyp f \<noteq> FilterTypeLog)"
    using assms(4) by (auto simp: expired_def)
  from expireFilters_run [OF assms(1,2) pre, of E] obtain api' new where
    r: "expireFilters E ttl now ids api = Some api'" and
    f: "filters api' =
          (\<lambda>i. if i \<in> set ids
                then (case filters api i of
                        None \<Rightarrow> None
                      | Some f \<Rightarrow> if expired ttl now f then None else Some f)
                else filters api i)" and
    c: "calls api' = calls api @ new"
       "filter isSysUninstallFilter new = List.map_filter (cascaded ttl now api) ids"
    by blast
  have t: "timeoutLoop_tick E ttl now ids api = Some api'"
    using r assms(1) by (simp add: timeoutLoop_tick_def sdiv_two_nonpos)
  have a: "\<forall>i f. filters api i = Some f \<and> sint ttl \<le> now - lastPollingTime f \<longrightarrow> filters api' i = None"
    using assms(3) by (auto simp: f expired_def)
  have b: "\<forall>i f. filters api i = Some f \<and> now - lastPollingTime f < sint ttl \<longrightarrow> filters api' i = Some f"
    using assms(3) by (auto simp: f expired_def)
  have n: "\<forall>i. filters api i = None \<longrightarrow> filters api' i = None"
    by (auto simp: f)
  have "{i \<in> set ids. cascaded ttl now api i \<noteq> None}
          = {i. \<exists>f. filters api i = Some f \<and> sint ttl \<le> now - lastPollingTime f
                         \<and> ftyp f = FilterTypeLog}"
    using assms(3) by (auto simp: cascaded_def expired_def split: option.splits if_splits)
  with length_map_filter_card [OF assms(2), of "cascaded ttl now api"]
  have l: "length (List.map_filter (cascaded ttl now api) ids)
         = card {i. \<exists>f. filters api i = Some f \<and> sint ttl \<le> now - lastPollingTime f
                         \<and> ftyp f = FilterTypeLog}"
    by simp
  from t a b n c l show ?thesis by blast
qed

text \<open>
  At time 1500 with a ttl of 400, on a registry that holds records of type log: the block
  filter (last polled at 0) and the log filter (last polled at 1000) are removed, the
  latter with one cascaded uninstall; the log filter polled at 1400 stays.
\<close>

theorem reaper_removes_idle_filters_witness:
  "(2::int) \<le> sint (400 :: 64 word)
   \<and> distinct [''0xa1'', ''0xa2'', ''0xa3'']
   \<and> set [''0xa1'', ''0xa2'', ''0xa3''] = dom (filters api0)
   \<and> sys api0 \<noteq> None
   \<and> (\<exists>api'. timeoutLoop_tick E0 400 1500 [''0xa1'', ''0xa2'', ''0xa3''] api0 = Some api'
         \<and> filters api' ''0xa1'' = None
         \<and> filters api' ''0xa2'' = None
         \<and> filters api' ''0xa3'' = Some fLogOld
         \<and> calls api' = [SysUninstallFilter ''0xd1'', StubUninstallFilter 0 ''0xd1''])
   \<and> List.map_filter (cascaded 400 1500 api0) [''0xa1'', ''0xa2'', ''0xa3''] = [SysUninstallFilter ''0xd1'']"
proof -
  have h1: "(2::int) \<le> sint (400 :: 64 word)" by simp
  have h2: "distinct [''0xa1'', ''0xa2'', ''0xa3'']" by simp
  have h3: "set [''0xa1'', ''0xa2'', ''0xa3''] = dom (filters api0)" by (auto simp: api0_def)
  have h4: "sys api0 \<noteq> None" by (simp add: api0_def)
  have f: "filters api0 ''0xa1'' = Some fBlock" "filters api0 ''0xa2'' = Some fLog"
          "filters api0 ''0xa3'' = Some fLogOld"
    by (simp_all add: api0_def)
  have i: "sint (400 :: 64 word) \<le> 1500 - lastPollingTime fBlock"
          "sint (400 :: 64 word) \<le> 1500 - lastPollingTime fLog"
          "1500 - lastPollingTime fLogOld < sint (400 :: 64 word)"
    by (simp_all add: fBlock_def fLog_def fLogOld_def)
  have m: "List.map_filter (cascaded 400 1500 api0) [''0xa1'', ''0xa2'', ''0xa3''] = [SysUninstallFilter ''0xd1'']"
    by (simp add: List.map_filter_simps cascaded_def expired_def input_defs)
  have c: "map_option calls (timeoutLoop_tick E0 400 1500 [''0xa1'', ''0xa2'', ''0xa3''] api0)
     = Some [SysUninstallFilter ''0xd1'', StubUninstallFilter 0 ''0xd1'']"
    by (simp add: timeoutLoop_tick_def Since_def facade_defs system_defs input_defs signed_divide_int_def)
  from reaper_removes_idle_filters [OF h1 h2 h3, of 1500 E0] h4
  obtain api' where
    t: "timeoutLoop_tick E0 400 1500 [''0xa1'', ''0xa2'', ''0xa3''] api0 = Some api'" and
    a: "\<forall>i f. filters api0 i = Some f \<and> sint (400 :: 64 word) \<le> 1500 - lastPollingTime f \<longrightarrow> filters api' i = None" and
    b: "\<forall>i f. filters api0 i = Some f \<and> 1500 - lastPollingTime f < sint (400 :: 64 word) \<longrightarrow> filters api' i = Some f"
    by blast
  from a f(1) i(1) have r1: "filters api' ''0xa1'' = None" by blast
  from a f(2) i(2) have r2: "filters api' ''0xa2'' = None" by blast
  from b f(3) i(3) have r3: "filters api' ''0xa3'' = Some fLogOld" by blast
  from c t have r4: "calls api' = [SysUninstallFilter ''0xd1'', StubUninstallFilter 0 ''0xd1'']" by simp
  from h1 h2 h3 h4 t r1 r2 r3 r4 m show ?thesis by blast
qed

text \<open>
  C7. Scenario S5 of the spec for a log filter installed through \<^verbatim>\<open>NewFilter\<close> at
  time 0 on a facade with a filter system: at time 1500 with a ttl of 400 the reaper
  removes the record, but it makes no call to \<^verbatim>\<open>FilterSystem.UninstallFilter\<close>,
  because the record is not of type log; the delegate filter stays registered in the
  filter system.
\<close>

theorem reaper_no_cascade_after_NewFilter:
  "fst (FilterApi_NewFilter E0 0 (NewFilterApi (Some NewFilterSystem)) ''N1'' query0) = (''0xa1'', None)
   \<and> map_option (\<lambda>a. filters a ''0xa1'')
        (timeoutLoop_tick E0 400 1500 [''0xa1'']
           (snd (FilterApi_NewFilter E0 0 (NewFilterApi (Some NewFilterSystem)) ''N1'' query0)))
       = Some None
   \<and> map_option calls
        (timeoutLoop_tick E0 400 1500 [''0xa1'']
           (snd (FilterApi_NewFilter E0 0 (NewFilterApi (Some NewFilterSystem)) ''N1'' query0)))
       = Some [CallNewEthClient ''N1'', SysNewFilter ''N1'' query0, StubNewFilter 0 query0]
   \<and> map_option (\<lambda>a. map_option (\<lambda>fs. filterProxies fs ''0xd1'') (sys a))
        (timeoutLoop_tick E0 400 1500 [''0xa1'']
           (snd (FilterApi_NewFilter E0 0 (NewFilterApi (Some NewFilterSystem)) ''N1'' query0)))
       = Some (Some (Some 0))"
  by (simp add: timeoutLoop_tick_def Since_def signed_divide_int_def facade_defs system_defs
        input_defs NewFilterSystem_def)

section \<open>Polling a log filter\<close>

lemma filterLogs_sound:
  assumes "l \<in> set (filterLogs E logs q)"
  shows "l \<in> set logs
       \<and> (\<forall>fb. FromBlock q = Some fb \<and> 0 \<le> sint fb \<longrightarrow> fb \<le> BlockNumber l)
       \<and> (\<forall>tb. ToBlock q = Some tb \<and> 0 \<le> sint tb \<longrightarrow> BlockNumber l \<le> tb)
       \<and> (Addresses q \<noteq> [] \<longrightarrow> IncludeEthLogAddrs E l (Addresses q))
       \<and> (Topics q \<noteq> [] \<longrightarrow> MatchEthLogTopics E l (Topics q))"
  using assms
  by (auto simp: filterLogs_filter fromBlockSkips_def toBlockSkips_def addressSkips_def
        topicSkips_def)

lemma FilterSystem_GetFilterChanges_Some:
  assumes "FilterSystem_GetFilterChanges E fs cs d = ((Some res, err), fs', cs')"
  shows "\<exists>p fctx changes. loadFilterContext fs d = Some (p, fctx)
       \<and> fst (stubGetFilterChanges E (cs @ [SysGetFilterChanges d]) (heap fs p) d) = Inr changes
       \<and> cs' = cs @ [SysGetFilterChanges d, StubGetFilterChanges p d]
       \<and> res = changes\<lparr>Logs := filterLogs E (Logs changes) (crit fctx)\<rparr>
       \<and> err = None"
  using assms
  by (auto simp: FilterSystem_GetFilterChanges_def Let_def split: option.splits prod.splits sum.splits)

lemma loadOrGetFnClient_frame:
  assumes "loadOrGetFnClient E a u = (r, a')"
  shows "sys a' = sys a \<and> (calls a' = calls a \<or> calls a' = calls a @ [CallNewEthClient u])"
  using assms by (auto simp: loadOrGetFnClient_def Let_def split: option.splits)

text \<open>
  What the facade does for a record that does carry the type log, on a facade with a
  filter system: a \<^verbatim>\<open>GetFilterChanges\<close> that returns changes has gone through
  \<^verbatim>\<open>FilterSystem.GetFilterChanges\<close> and the proxy stub of the delegate filter, not
  through a filter call on the full node; the logs returned are the stub's logs
  filtered by \<^verbatim>\<open>filterLogs\<close> against the query stored for the delegate filter. So
  every returned log is one of the stub's, lies at or after a non-negative FromBlock and
  at or before a non-negative ToBlock of that query, is included by its address list
  when that is not empty, and matches its topics when there are any.
\<close>

theorem GetFilterChanges_refilters:
  assumes "filters api i = Some f" and "ftyp f = FilterTypeLog" and "sys api = Some fs"
    and "FilterApi_GetFilterChanges E now api url i = ((Some res, err), api')"
  shows "\<exists>p fctx cs changes.
       loadFilterContext fs (fid (del f)) = Some (p, fctx)
     \<and> (cs = calls api \<or> cs = calls api @ [CallNewEthClient (nodeUrl (del f))])
     \<and> fst (stubGetFilterChanges E (cs @ [SysGetFilterChanges (fid (del f))]) (heap fs p) (fid (del f)))
          = Inr changes
     \<and> calls api' = cs @ [SysGetFilterChanges (fid (del f)), StubGetFilterChanges p (fid (del f))]
     \<and> res = changes\<lparr>Logs := filterLogs E (Logs changes) (crit fctx)\<rparr>
     \<and> err = None
     \<and> (\<forall>l \<in> set (Logs res).
            l \<in> set (Logs changes)
          \<and> (\<forall>fb. FromBlock (crit fctx) = Some fb \<and> 0 \<le> sint fb \<longrightarrow> fb \<le> BlockNumber l)
          \<and> (\<forall>tb. ToBlock (crit fctx) = Some tb \<and> 0 \<le> sint tb \<longrightarrow> BlockNumber l \<le> tb)
          \<and> (Addresses (crit fctx) \<noteq> [] \<longrightarrow> IncludeEthLogAddrs E l (Addresses (crit fctx)))
          \<and> (Topics (crit fctx) \<noteq> [] \<longrightarrow> MatchEthLogTopics E l (Topics (crit fctx))))"
proof -
  let ?d = "fid (del f)"
  obtain a1 where ud: "useDelegateFullNode ''GetFilterChanges'' api i f url = (nodeUrl (del f), a1)"
    by (cases "useDelegateFullNode ''GetFilterChanges'' api i f url")
       (use useDelegateFullNode_url [of "''GetFilterChanges''" api i f url] in auto)
  let ?a2 = "refreshFilterPollingTime now a1 i"
  have fr: "calls ?a2 = calls api" "sys ?a2 = sys api"
    using useDelegateFullNode_frame [of "''GetFilterChanges''" api i f url] ud
    by (simp_all add: refreshFilterPollingTime_frame)
  obtain r a3 where lc: "loadOrGetFnClient E ?a2 (nodeUrl (del f)) = (r, a3)"
    by (cases "loadOrGetFnClient E ?a2 (nodeUrl (del f))")
  from loadOrGetFnClient_frame [OF lc] fr assms(3)
  have s3: "sys a3 = Some fs"
    and c3: "calls a3 = calls api \<or> calls a3 = calls api @ [CallNewEthClient (nodeUrl (del f))]"
    by simp_all
  from assms(1,4) ud lc obtain c where rc: "r = Inr c"
    by (cases r) (simp_all add: FilterApi_GetFilterChanges_def getFilter_def)
  obtain x fs' cs' where g: "FilterSystem_GetFilterChanges E fs (calls a3) ?d = (x, fs', cs')"
    by (cases "FilterSystem_GetFilterChanges E fs (calls a3) ?d") auto
  have dc: "delegateFilterChanges E a3 c f = (x, a3\<lparr>sys := Some fs', calls := cs'\<rparr>)"
    using s3 assms(2) g by (simp add: delegateFilterChanges_def)
  from assms(1,4) ud lc rc dc have x: "x = (Some res, err)"
    and a': "api' = (if IsFilterNotFoundError E err
                     then snd (delFilter (a3\<lparr>sys := Some fs', calls := cs'\<rparr>) i)
                     else a3\<lparr>sys := Some fs', calls := cs'\<rparr>)"
    by (auto simp: FilterApi_GetFilterChanges_def getFilter_def split: prod.splits)
  from a' have ca: "calls api' = cs'"
    by (simp add: delFilter_def split: option.splits)
  from FilterSystem_GetFilterChanges_Some [OF g [unfolded x]] obtain p fctx changes where
    k: "loadFilterContext fs ?d = Some (p, fctx)"
       "fst (stubGetFilterChanges E (calls a3 @ [SysGetFilterChanges ?d]) (heap fs p) ?d) = Inr changes"
       "cs' = calls a3 @ [SysGetFilterChanges ?d, StubGetFilterChanges p ?d]"
       "res = changes\<lparr>Logs := filterLogs E (Logs changes) (crit fctx)\<rparr>"
       "err = None"
    by blast
  have "\<forall>l \<in> set (Logs res).
            l \<in> set (Logs changes)
          \<and> (\<forall>fb. FromBlock (crit fctx) = Some fb \<and> 0 \<le> sint fb \<longrightarrow> fb \<le> BlockNumber l)
          \<and> (\<forall>tb. ToBlock (crit fctx) = Some tb \<and> 0 \<le> sint tb \<longrightarrow> BlockNumber l \<le> tb)
          \<and> (Addresses (crit fctx) \<noteq> [] \<longrightarrow> IncludeEthLogAddrs E l (Addresses (crit fctx)))
          \<and> (Topics (crit fctx) \<noteq> [] \<longrightarrow> MatchEthLogTopics E l (Topics (crit fctx)))"
    using filterLogs_sound [of _ E "Logs changes" "crit fctx"] k(4) by simp
  with k c3 ca show ?thesis by blast
qed

text \<open>
  Scenario S3 of the spec on a registry that holds a record of type log: the stub
  delivers a log of address 0xA at block 150 and one of address 0xB at block 151; only
  the first is returned.
\<close>

theorem GetFilterChanges_refilters_witness:
  "filters api0 ''0xa2'' = Some fLog \<and> ftyp fLog = FilterTypeLog \<and> sys api0 = Some fs0
   \<and> fst (FilterApi_GetFilterChanges E0 1500 api0 ''N2'' ''0xa2'')
        = (Some \<lparr>Logs = [logA150], Hashes = []\<rparr>, None)
   \<and> calls (snd (FilterApi_GetFilterChanges E0 1500 api0 ''N2'' ''0xa2''))
        = [SysGetFilterChanges ''0xd1'', StubGetFilterChanges 0 ''0xd1'']
   \<and> fst (stubGetFilterChanges E0 [SysGetFilterChanges ''0xd1''] (heap fs0 0) ''0xd1'')
        = Inr \<lparr>Logs = [logA150, logB151], Hashes = []\<rparr>
   \<and> (\<exists>p fctx. loadFilterContext fs0 (fid (del fLog)) = Some (p, fctx)
         \<and> (\<forall>l \<in> set [logA150].
              (\<forall>fb. FromBlock (crit fctx) = Some fb \<and> 0 \<le> sint fb \<longrightarrow> fb \<le> BlockNumber l)
            \<and> (\<forall>tb. ToBlock (crit fctx) = Some tb \<and> 0 \<le> sint tb \<longrightarrow> BlockNumber l \<le> tb)
            \<and> (Addresses (crit fctx) \<noteq> [] \<longrightarrow> IncludeEthLogAddrs E0 l (Addresses (crit fctx)))
            \<and> (Topics (crit fctx) \<noteq> [] \<longrightarrow> MatchEthLogTopics E0 l (Topics (crit fctx)))))"
proof -
  have a: "filters api0 ''0xa2'' = Some fLog" by (simp add: api0_def)
  have b: "ftyp fLog = FilterTypeLog" by (simp add: fLog_def)
  have c: "sys api0 = Some fs0" by (simp add: api0_def)
  have d: "fst (FilterApi_GetFilterChanges E0 1500 api0 ''N2'' ''0xa2'')
        = (Some \<lparr>Logs = [logA150], Hashes = []\<rparr>, None)"
    by (simp add: facade_defs system_defs input_defs)
  have e: "calls (snd (FilterApi_GetFilterChanges E0 1500 api0 ''N2'' ''0xa2''))
        = [SysGetFilterChanges ''0xd1'', StubGetFilterChanges 0 ''0xd1'']"
    by (simp add: facade_defs system_defs input_defs)
  have s: "fst (stubGetFilterChanges E0 [SysGetFilterChanges ''0xd1''] (heap fs0 0) ''0xd1'')
        = Inr \<lparr>Logs = [logA150, logB151], Hashes = []\<rparr>"
    by (simp add: input_defs)
  obtain api' where r: "FilterApi_GetFilterChanges E0 1500 api0 ''N2'' ''0xa2''
        = ((Some \<lparr>Logs = [logA150], Hashes = []\<rparr>, None), api')"
    using d by (cases "FilterApi_GetFilterChanges E0 1500 api0 ''N2'' ''0xa2''") auto
  from GetFilterChanges_refilters [OF a b c r] a b c d e s show ?thesis
    by simp blast
qed

text \<open>
  C4. A log filter installed through \<^verbatim>\<open>NewFilter\<close> on a facade with a filter system
  is not polled through the filter system: its record is not of type log, so
  \<^verbatim>\<open>GetFilterChanges\<close> asks the full node with the id of the delegate filter and
  returns the answer as it is. Here the full node answers with a log of address 0xB,
  which the address list of the stored query excludes, and that log reaches the client.
\<close>

theorem GetFilterChanges_after_NewFilter_unfiltered:
  "fst (FilterApi_NewFilter E0 0 (NewFilterApi (Some NewFilterSystem)) ''N1'' query0) = (''0xa1'', None)
   \<and> fst (FilterApi_GetFilterChanges E0 1
             (snd (FilterApi_NewFilter E0 0 (NewFilterApi (Some NewFilterSystem)) ''N1'' query0))
             ''N1'' ''0xa1'')
       = (Some \<lparr>Logs = [logA150, logB151], Hashes = []\<rparr>, None)
   \<and> calls (snd (FilterApi_GetFilterChanges E0 1
             (snd (FilterApi_NewFilter E0 0 (NewFilterApi (Some NewFilterSystem)) ''N1'' query0))
             ''N1'' ''0xa1''))
       = [CallNewEthClient ''N1'', SysNewFilter ''N1'' query0, StubNewFilter 0 query0,
          CallGetFilterChanges ''N1'' ''0xd1'']
   \<and> addressSkips E0 query0 logB151"
  by (simp add: facade_defs system_defs input_defs NewFilterSystem_def)

section \<open>The hardfork clamp\<close>





end
